theory Spec2Isabelle
  imports Complex_Main
begin

section \<open>Ledger data model\<close>

text \<open>
  The tables the controllers read and write. Money columns are \<open>DECIMAL(10,2)\<close> in the
  models and JavaScript numbers in the controllers; they are modelled as exact rationals,
  so binary floating-point representation error is abstracted away while the decimal
  rounding of \<open>toFixed(2)\<close> is kept. Timestamps are milliseconds as naturals. The Chinese
  message literals of the source are represented by constructors named after their meaning.
\<close>

datatype wstatus = WPending | WProcessing | WSuccess | WFailed | WCancelled

datatype pstatus = PPending | PSuccess | PFailed | PExpired

datatype ptype = Prepay | Repair | Transfer

datatype ostatus =
    PendingPayment | Pending | Accepted | InProgress | PendingReview | Completed
  | PendingRepairPayment | Paid | Cancelled | CancelPending | Closed | Settled

datatype cstatus = CertPending | CertApproved | CertRejected

text \<open>
  Values written to \<open>fail_reason\<close>: the literal "request too frequent, try later", the
  literal "transfer API call failed", the literal "transfer failed", the literal
  "cancelled by user", the literal "user cancelled the receipt", or a text supplied by
  the gateway or by the thrown error.
\<close>

datatype reason =
    TooFrequent | TransferApiFailed | TransferFailed | UserCancelled | UserCancelledReceipt
  | Given string

record withdrawal =
  w_id :: nat
  w_electrician_id :: nat
  w_amount :: rat
  w_status :: wstatus
  w_out_batch_no :: string
  w_transfer_bill_no :: "string option"
  w_package_info :: "string option"
  w_openid :: string
  w_real_name :: string
  total_income_snapshot :: rat
  withdrawn_snapshot :: rat
  available_balance_snapshot :: rat
  w_fail_reason :: "reason option"
  w_completed_at :: "nat option"

datatype failed_reason = PaymentTimeoutClosed | CreateFailed string

record payment =
  p_id :: nat
  p_order_id :: nat
  p_user_id :: nat
  p_amount :: rat
  p_payment_method :: string
  p_out_trade_no :: string
  p_type :: ptype
  p_status :: pstatus
  p_transaction_id :: "string option"
  p_paid_at :: "nat option"
  p_failed_reason :: "failed_reason option"

record order =
  o_id :: nat
  o_user_id :: nat
  o_electrician_id :: "nat option"
  o_order_no :: string
  o_status :: ostatus
  o_prepaid_at :: "nat option"
  o_repair_paid_at :: "nat option"

record review =
  r_order_id :: nat
  r_rating :: nat

record user =
  u_id :: nat
  u_openid :: "string option"

record certification =
  c_user_id :: nat
  c_status :: cstatus
  c_real_name :: "string option"

text \<open>
  Remarks of status-log rows: "prepayment paid, order now awaits acceptance", "repair fee
  paid, order now in progress" (the default remark of \<open>transitionRepairPaymentSuccess\<close>)
  and "repair fee paid" (written by \<open>queryPayment\<close>).
\<close>

datatype remark = PrepayPaidRemark | RepairPaidInProgressRemark | RepairPaidRemark

datatype operator_type = OpUser | OpSystem

record status_log =
  l_order_id :: nat
  l_from_status :: "ostatus option"
  l_to_status :: ostatus
  l_operator_id :: nat
  l_operator_type :: operator_type
  l_remark :: remark

text \<open>
  Notification texts, each carrying the order number interpolated into its content:
  "prepayment paid" (to the user), "repair fee paid, the electrician will come" (to the
  user, from \<open>transitionRepairPaymentSuccess\<close>), "the user has paid the repair fee" (to the
  electrician) and "repair fee paid, wait for the electrician" (to the user, from
  \<open>queryPayment\<close>).
\<close>

datatype notice =
    PrepayPaidNotice string
  | RepairPaidNotice string
  | RepairPaidElectricianNotice string
  | RepairPaidWaitNotice string

record message =
  m_user_id :: nat
  m_notice :: notice
  m_related_id :: nat

record db =
  withdrawals :: "withdrawal list"
  payments :: "payment list"
  orders :: "order list"
  reviews :: "review list"
  users :: "user list"
  certifications :: "certification list"
  status_logs :: "status_log list"
  messages :: "message list"

section \<open>Balance calculator\<close>

text \<open>
  \<open>Number(x.toFixed(2))\<close>: \<open>toFixed\<close> strips the sign, picks the integer \<open>n\<close> with
  \<open>n / 100\<close> nearest to the magnitude, the larger one on a tie, and puts the sign back.
\<close>

definition toFixed2 :: "rat \<Rightarrow> rat" where
  "toFixed2 x =
     (if x < 0 then - (of_int \<lfloor>(- x) * 100 + 1 / 2\<rfloor> / 100)
      else of_int \<lfloor>x * 100 + 1 / 2\<rfloor> / 100)"

text \<open>
  \<open>Order.findAll\<close> with the required include of a review of rating 5: the ids of the
  electrician's completed orders that have such a review.
\<close>

definition eligibleOrderIds :: "db \<Rightarrow> nat \<Rightarrow> nat list" where
  "eligibleOrderIds d electricianId =
     map o_id
       (filter (\<lambda>ord. o_electrician_id ord = Some electricianId \<and> o_status ord = Completed
                  \<and> list_ex (\<lambda>r. r_order_id r = o_id ord \<and> r_rating r = 5) (reviews d))
          (orders d))"

text \<open>
  \<open>Payment.sum('amount', ...)\<close> over successful prepay and repair payments of the eligible
  orders; it is only issued when there is an eligible order, and an empty sum counts 0.
\<close>

definition incomeSum :: "db \<Rightarrow> nat \<Rightarrow> rat" where
  "incomeSum d electricianId =
     (let orderIds = eligibleOrderIds d electricianId in
      if orderIds = [] then 0
      else sum_list (map p_amount
             (filter (\<lambda>p. p_order_id p \<in> set orderIds \<and> p_status p = PSuccess
                        \<and> (p_type p = Prepay \<or> p_type p = Repair))
                (payments d))))"

text \<open>\<open>Withdrawal.sum('amount', {where: {electrician_id, status in sts}})\<close>.\<close>

definition withdrawalSum :: "db \<Rightarrow> nat \<Rightarrow> wstatus list \<Rightarrow> rat" where
  "withdrawalSum d electricianId sts =
     sum_list (map w_amount
       (filter (\<lambda>w. w_electrician_id w = electricianId \<and> w_status w \<in> set sts)
          (withdrawals d)))"

record balance =
  totalIncome :: rat
  withdrawnAmount :: rat
  lockedAmount :: rat
  availableBalance :: rat

text \<open>
  \<open>calculateBalance\<close> of the current controller revision (the one with
  \<open>lockedAmount\<close>): withdrawn counts \<open>success\<close> rows, locked counts \<open>processing\<close> rows.
\<close>

definition calculateBalance :: "db \<Rightarrow> nat \<Rightarrow> balance" where
  "calculateBalance d electricianId =
     (let totalIncome = incomeSum d electricianId;
          withdrawnAmount = withdrawalSum d electricianId [WSuccess];
          lockedAmount = withdrawalSum d electricianId [WProcessing];
          availableBalance = toFixed2 (totalIncome - withdrawnAmount - lockedAmount)
      in \<lparr> totalIncome = toFixed2 totalIncome,
           withdrawnAmount = toFixed2 withdrawnAmount,
           lockedAmount = toFixed2 lockedAmount,
           availableBalance = availableBalance \<rparr>)"

record balance0 =
  totalIncome0 :: rat
  withdrawnAmount0 :: rat
  availableBalance0 :: rat

text \<open>
  \<open>calculateBalance\<close> of the earlier controller revisions: a single sum over the rows
  whose status is \<open>success\<close> or \<open>processing\<close>, and no \<open>lockedAmount\<close> field.
\<close>

definition calculateBalance0 :: "db \<Rightarrow> nat \<Rightarrow> balance0" where
  "calculateBalance0 d electricianId =
     (let totalIncome = incomeSum d electricianId;
          withdrawnAmount = withdrawalSum d electricianId [WSuccess, WProcessing];
          availableBalance = toFixed2 (totalIncome - withdrawnAmount)
      in \<lparr> totalIncome0 = toFixed2 totalIncome,
           withdrawnAmount0 = toFixed2 withdrawnAmount,
           availableBalance0 = availableBalance \<rparr>)"

text \<open>The amount a set of statuses contributes, written row by row.\<close>

definition amountIn :: "db \<Rightarrow> nat \<Rightarrow> wstatus \<Rightarrow> rat" where
  "amountIn d e st =
     (\<Sum>w\<leftarrow>withdrawals d. if w_electrician_id w = e \<and> w_status w = st then w_amount w else 0)"

text \<open>A value with at most two decimal places, as a \<open>DECIMAL(10,2)\<close> column holds.\<close>

definition cents :: "rat \<Rightarrow> bool" where
  "cents x = (of_int \<lfloor>x * 100\<rfloor> = x * 100)"

definition emptyDb :: db where
  "emptyDb = \<lparr> withdrawals = [], payments = [], orders = [], reviews = [], users = [],
               certifications = [], status_logs = [], messages = [] \<rparr>"

section \<open>Gateway, errors and replies\<close>

text \<open>
  JavaScript truthiness of an optional string: \<open>undefined\<close>, \<open>null\<close> and the empty string
  are falsy. \<open>a || b\<close> on such values is \<open>orElse\<close>.
\<close>

definition truthy :: "string option \<Rightarrow> bool" where
  "truthy s = (case s of None \<Rightarrow> False | Some v \<Rightarrow> v \<noteq> [])"

definition orElse :: "string option \<Rightarrow> string option \<Rightarrow> string option" where
  "orElse a b = (if truthy a then a else b)"

text \<open>
  Texts of the errors the withdrawal controller raises, in source order: a withdrawal is
  already being processed; WeChat is not bound; real-name certification is missing; the
  amount is below 0.10; the balance is insufficient (with the available balance); too
  frequent, retry in 5 minutes; the withdrawal failed (with the gateway's text); a query
  parameter is missing; the withdrawal record does not exist; the signature is invalid;
  or the message of some other thrown error.
\<close>

datatype msg =
    ProcessingExists | WechatNotBound | RealNameRequired | BelowMinimum
  | InsufficientBalance rat | TooFrequentRetry | WithdrawFailed string
  | MissingQueryParam | WithdrawalNotFound | SignatureInvalid | ErrorText string

text \<open>What a gateway call throws: an object with optional \<open>status\<close> and \<open>code\<close> and a message.\<close>

datatype api_error = ApiError (e_status: "nat option") (e_code: "string option") (e_message: string)

text \<open>
  Errors travelling to the \<open>catch\<close> blocks: an \<open>AppError\<close> with its \<open>statusCode\<close>, the
  unique-key violation of \<open>Withdrawal.create\<close> on \<open>out_batch_no\<close>, or a gateway error.
\<close>

datatype error = AppError msg nat | UniqueConstraintError | Thrown api_error

datatype transfer_result =
  TransferResult (t_transfer_bill_no: "string option") (t_out_bill_no: "string option")
    (t_package_info: "string option") (t_state: "string option")

datatype query_result = QueryResult (q_state: string) (q_fail_reason: "string option")

datatype cancel_result = CancelResult (x_transfer_bill_no: "string option") (x_state: "string option")

datatype gw_call =
    CreateTransferBill string rat
  | QueryTransferBill string
  | CancelTransferBill string
  | QueryOrder string

text \<open>The fields every status reply lists.\<close>

datatype view =
  View (v_id: nat) (v_amount: rat) (v_status: wstatus) (v_out_batch_no: string)
    (v_transfer_bill_no: "string option") (v_fail_reason: "reason option")
    (v_completed_at: "nat option")

definition viewOf :: "withdrawal \<Rightarrow> view" where
  "viewOf w = View (w_id w) (w_amount w) (w_status w) (w_out_batch_no w)
     (w_transfer_bill_no w) (w_fail_reason w) (w_completed_at w)"

text \<open>
  Replies of the withdrawal endpoints: \<open>next(error)\<close>; the 401 of an unauthenticated
  status query; the 200 of an accepted withdrawal (id, amount, batch number, transfer bill
  number, package info, state); the 429 body with its message and machine-readable code;
  a 200 status view with optional \<open>wechat_state\<close> and \<open>query_error\<close>; the 200 of a
  cancellation (id, amount, batch number, transfer bill number, gateway state, completion
  time; the status sent is always \<open>cancelled\<close>); and the two bodies of the webhook, 200
  \<open>SUCCESS\<close> and 500 \<open>FAIL\<close>. A \<open>query_error\<close> is the thrown message, bare or behind the
  literal prefix "query failed: ".
\<close>

datatype query_error = Bare string | Prefixed string

datatype reply =
    Next error
  | Unauthenticated
  | Accepted nat rat string "string option" "string option" string
  | RateLimited msg string
  | Status view "string option" "query_error option"
  | CancelledReply nat rat string "string option" "string option" "nat option"
  | CallbackSuccess
  | CallbackFail msg

datatype 'r outcome = Outcome (store: db) (reply: 'r) (calls: "gw_call list")

section \<open>Withdrawal controller, current revision\<close>

fun dec :: "nat \<Rightarrow> string" where
  "dec n = (if n < 10 then [char_of (48 + n)] else dec (n div 10) @ [char_of (48 + n mod 10)])"

text \<open>\<open>`W${timestamp}${electricianId}${random}`.substring(0, 32)\<close>.\<close>

definition generateOutBatchNo :: "nat \<Rightarrow> nat \<Rightarrow> string \<Rightarrow> string" where
  "generateOutBatchNo electricianId timestamp random =
     take 32 (''W'' @ dec timestamp @ dec electricianId @ random)"

text \<open>The auto-increment primary key of a new row.\<close>

definition nextId :: "withdrawal list \<Rightarrow> nat" where
  "nextId ws = Suc (Max (insert 0 (set (map w_id ws))))"

text \<open>\<open>Withdrawal.update(values, {where: {id}})\<close> and the same by \<open>out_batch_no\<close>.\<close>

definition updateById :: "nat \<Rightarrow> (withdrawal \<Rightarrow> withdrawal) \<Rightarrow> db \<Rightarrow> db" where
  "updateById i f d = d \<lparr> withdrawals := map (\<lambda>w. if w_id w = i then f w else w) (withdrawals d) \<rparr>"

definition updateByBatchNo :: "string \<Rightarrow> (withdrawal \<Rightarrow> withdrawal) \<Rightarrow> db \<Rightarrow> db" where
  "updateByBatchNo no f d =
     d \<lparr> withdrawals := map (\<lambda>w. if w_out_batch_no w = no then f w else w) (withdrawals d) \<rparr>"

definition findByPk :: "nat \<Rightarrow> db \<Rightarrow> withdrawal option" where
  "findByPk i d = find (\<lambda>w. w_id w = i) (withdrawals d)"

text \<open>
  \<open>amount ? Number(amount) : balance.availableBalance\<close>; the number 0 is falsy. The
  request's \<open>amount\<close> is taken to be a JSON number or absent; an amount sent as a string is
  not represented.
\<close>

definition withdrawAmountOf :: "rat option \<Rightarrow> balance \<Rightarrow> rat" where
  "withdrawAmountOf amount b =
     (case amount of
        None \<Rightarrow> availableBalance b
      | Some a \<Rightarrow> if a \<noteq> 0 then a else availableBalance b)"

text \<open>
  The part of \<open>withdraw\<close> inside the transaction, up to \<open>t.commit()\<close>. An error leaves
  through the \<open>catch\<close>, which rolls the unfinished transaction back; nothing was written
  before any of the throws, so the store is the one the request found.
\<close>

definition withdrawTx :: "db \<Rightarrow> nat \<Rightarrow> rat option \<Rightarrow> nat \<Rightarrow> string \<Rightarrow> error + db \<times> withdrawal" where
  "withdrawTx d electricianId amount now random =
     (if find (\<lambda>w. w_electrician_id w = electricianId \<and> w_status w = WProcessing)
           (withdrawals d) \<noteq> None
      then Inl (AppError ProcessingExists 400)
      else
       (case find (\<lambda>u. u_id u = electricianId) (users d) of
          None \<Rightarrow> Inl (AppError WechatNotBound 400)
        | Some usr \<Rightarrow>
           (if \<not> truthy (u_openid usr) then Inl (AppError WechatNotBound 400)
            else
             (case find (\<lambda>c. c_user_id c = electricianId \<and> c_status c = CertApproved)
                     (certifications d) of
                None \<Rightarrow> Inl (AppError RealNameRequired 400)
              | Some cert \<Rightarrow>
                 (if \<not> truthy (c_real_name cert) then Inl (AppError RealNameRequired 400)
                  else
                   (let b = calculateBalance d electricianId;
                        withdrawAmount = withdrawAmountOf amount b
                    in
                     (if withdrawAmount < 1 / 10 then Inl (AppError BelowMinimum 400)
                      else if withdrawAmount > availableBalance b
                      then Inl (AppError (InsufficientBalance (availableBalance b)) 400)
                      else
                       (let outBatchNo = generateOutBatchNo electricianId now random;
                            row = \<lparr> w_id = nextId (withdrawals d),
                                    w_electrician_id = electricianId,
                                    w_amount = withdrawAmount,
                                    w_status = WPending,
                                    w_out_batch_no = outBatchNo,
                                    w_transfer_bill_no = None,
                                    w_package_info = None,
                                    w_openid = the (u_openid usr),
                                    w_real_name = the (c_real_name cert),
                                    total_income_snapshot = totalIncome b,
                                    withdrawn_snapshot = withdrawnAmount b,
                                    available_balance_snapshot = availableBalance b,
                                    w_fail_reason = None,
                                    w_completed_at = None \<rparr>
                        in
                         (if list_ex (\<lambda>w. w_out_batch_no w = outBatchNo) (withdrawals d)
                          then Inl UniqueConstraintError
                          else Inr (d \<lparr> withdrawals := withdrawals d @ [row] \<rparr>, row))))))))))"

text \<open>
  The part after the commit: the result of \<open>createTransferBill\<close> arrives, either a
  transfer result or a thrown error, and the row is updated by its id. The thrown
  \<open>AppError\<close> goes to the outer \<open>catch\<close>.
\<close>

definition withdrawTransfer :: "db \<Rightarrow> withdrawal \<Rightarrow> api_error + transfer_result \<Rightarrow> db \<times> (error + reply)" where
  "withdrawTransfer d row gateway =
     (case gateway of
        Inr tr \<Rightarrow>
          (updateById (w_id row)
             (\<lambda>w. w \<lparr> w_status := WProcessing,
                      w_transfer_bill_no := orElse (t_transfer_bill_no tr) (t_out_bill_no tr),
                      w_package_info := t_package_info tr \<rparr>) d,
           Inr (Accepted (w_id row) (w_amount row) (w_out_batch_no row) (t_transfer_bill_no tr)
                  (t_package_info tr)
                  (if truthy (t_state tr) then the (t_state tr) else ''WAIT_USER_CONFIRM'')))
      | Inl apiError \<Rightarrow>
          if e_status apiError = Some 429 \<or> e_code apiError = Some ''FREQUENCY_LIMIT_EXCEED''
          then (updateById (w_id row)
                  (\<lambda>w. w \<lparr> w_status := WFailed, w_fail_reason := Some TooFrequent \<rparr>) d,
                Inl (AppError TooFrequentRetry 429))
          else (updateById (w_id row)
                  (\<lambda>w. w \<lparr> w_status := WFailed,
                           w_fail_reason := Some (if e_message apiError \<noteq> []
                                                  then Given (e_message apiError)
                                                  else TransferApiFailed) \<rparr>) d,
                Inl (AppError (WithdrawFailed (e_message apiError)) 500)))"

text \<open>The outer \<open>catch\<close> of \<open>withdraw\<close>: status code 429 gets its own body, the rest goes to \<open>next\<close>.\<close>

definition withdrawCatch :: "error \<Rightarrow> reply" where
  "withdrawCatch err =
     (case err of
        AppError m statusCode \<Rightarrow>
          if statusCode = 429 then RateLimited m ''RATE_LIMIT_EXCEEDED'' else Next err
      | _ \<Rightarrow> Next err)"

text \<open>
  \<open>exports.withdraw\<close>. \<open>now\<close> and \<open>random\<close> are \<open>Date.now()\<close> and the hex of
  \<open>crypto.randomBytes(4)\<close>; \<open>gateway\<close> is what \<open>createTransferBill\<close> does if it is called.
\<close>

definition withdraw ::
  "db \<Rightarrow> nat \<Rightarrow> rat option \<Rightarrow> nat \<Rightarrow> string \<Rightarrow> api_error + transfer_result \<Rightarrow> reply outcome" where
  "withdraw d electricianId amount now random gateway =
     (case withdrawTx d electricianId amount now random of
        Inl err \<Rightarrow> Outcome d (withdrawCatch err) []
      | Inr (d1, row) \<Rightarrow>
          (case withdrawTransfer d1 row gateway of
             (d2, res) \<Rightarrow>
               Outcome d2 (case res of Inl err \<Rightarrow> withdrawCatch err | Inr r \<Rightarrow> r)
                 [CreateTransferBill (w_out_batch_no row) (w_amount row)]))"

section \<open>Withdrawal status reconciliation and cancellation\<close>

definition terminal :: "wstatus \<Rightarrow> bool" where
  "terminal st = (st = WSuccess \<or> st = WFailed \<or> st = WCancelled)"

text \<open>
  The \<open>updateData\<close> object built from the gateway's \<open>state\<close>; \<open>None\<close> is the empty object,
  for which no update is issued. The text written on \<open>CANCELLED\<close> differs between the two
  status endpoints, so it is a parameter.
\<close>

definition updateDataOf :: "reason \<Rightarrow> query_result \<Rightarrow> nat \<Rightarrow> (withdrawal \<Rightarrow> withdrawal) option" where
  "updateDataOf cancelText q now =
     (if q_state q = ''SUCCESS''
      then Some (\<lambda>w. w \<lparr> w_status := WSuccess, w_completed_at := Some now \<rparr>)
      else if q_state q = ''FAIL''
      then Some (\<lambda>w. w \<lparr> w_status := WFailed,
                         w_fail_reason := Some (if truthy (q_fail_reason q)
                                                then Given (the (q_fail_reason q))
                                                else TransferFailed) \<rparr>)
      else if q_state q = ''CANCELLED''
      then Some (\<lambda>w. w \<lparr> w_status := WCancelled, w_fail_reason := Some cancelText \<rparr>)
      else None)"

definition applyUpdate :: "(db \<Rightarrow> db) option \<Rightarrow> db \<Rightarrow> db" where
  "applyUpdate u d = (case u of None \<Rightarrow> d | Some g \<Rightarrow> g d)"

text \<open>
  \<open>exports.queryWithdrawalStatus\<close>. \<open>usr\<close> is \<open>req.user.id\<close> when present (0 is falsy);
  \<open>withdrawal_id\<close> and \<open>out_batch_no\<close> are the query parameters; \<open>gateway\<close> is what
  \<open>queryTransferBill\<close> does if it is called.
\<close>

definition queryWithdrawalStatus ::
  "db \<Rightarrow> nat option \<Rightarrow> nat option \<Rightarrow> string option \<Rightarrow> api_error + query_result \<Rightarrow> nat
     \<Rightarrow> reply outcome" where
  "queryWithdrawalStatus d usr withdrawal_id out_batch_no gateway now =
     (if usr = None \<or> usr = Some 0 then Outcome d Unauthenticated []
      else
       (let electricianId = the usr;
            wh = (if withdrawal_id \<noteq> None
                  then Some (\<lambda>w. w_electrician_id w = electricianId \<and> w_id w = the withdrawal_id)
                  else if truthy out_batch_no
                  then Some (\<lambda>w. w_electrician_id w = electricianId
                                   \<and> w_out_batch_no w = the out_batch_no)
                  else None)
        in
         (case wh of
            None \<Rightarrow> Outcome d (Next (AppError MissingQueryParam 400)) []
          | Some cond \<Rightarrow>
             (case find cond (withdrawals d) of
                None \<Rightarrow> Outcome d (Next (AppError WithdrawalNotFound 404)) []
              | Some w \<Rightarrow>
                 (if terminal (w_status w) then Outcome d (Status (viewOf w) None None) []
                  else
                   (case gateway of
                      Inl apiError \<Rightarrow>
                        Outcome d (Status (viewOf w) None (Some (Bare (e_message apiError))))
                          [QueryTransferBill (w_out_batch_no w)]
                    | Inr q \<Rightarrow>
                       (let d1 = applyUpdate
                                   (map_option (updateById (w_id w)) (updateDataOf UserCancelled q now)) d
                        in
                         (case findByPk (w_id w) d1 of
                            Some u \<Rightarrow>
                              Outcome d1 (Status (viewOf u) (Some (q_state q)) None)
                                [QueryTransferBill (w_out_batch_no w)]
                          | None \<Rightarrow>
                              Outcome d1 (Status (viewOf w) None (Some (Bare ''TypeError'')))
                                [QueryTransferBill (w_out_batch_no w)]))))))))"

text \<open>\<open>withdrawal.status.toUpperCase()\<close>.\<close>

fun upperStatus :: "wstatus \<Rightarrow> string" where
  "upperStatus WPending = ''PENDING''"
| "upperStatus WProcessing = ''PROCESSING''"
| "upperStatus WSuccess = ''SUCCESS''"
| "upperStatus WFailed = ''FAILED''"
| "upperStatus WCancelled = ''CANCELLED''"

text \<open>The \<open>findOne\<close> by batch number and electrician id.\<close>

definition findOwned :: "string \<Rightarrow> nat \<Rightarrow> db \<Rightarrow> withdrawal option" where
  "findOwned outBatchNo electricianId d =
     find (\<lambda>w. w_out_batch_no w = outBatchNo \<and> w_electrician_id w = electricianId)
       (withdrawals d)"

text \<open>\<open>exports.getWithdrawalStatus\<close>, the status query by path parameter.\<close>

definition getWithdrawalStatus ::
  "db \<Rightarrow> nat \<Rightarrow> string \<Rightarrow> api_error + query_result \<Rightarrow> nat \<Rightarrow> reply outcome" where
  "getWithdrawalStatus d electricianId outBatchNo gateway now =
     (case findOwned outBatchNo electricianId d of
        None \<Rightarrow> Outcome d (Next (AppError WithdrawalNotFound 404)) []
      | Some w \<Rightarrow>
         (if terminal (w_status w)
          then Outcome d (Status (viewOf w) (Some (upperStatus (w_status w))) None) []
          else
           (case gateway of
              Inl apiError \<Rightarrow>
                Outcome d (Status (viewOf w) None (Some (Prefixed (e_message apiError))))
                  [QueryTransferBill outBatchNo]
            | Inr q \<Rightarrow>
               (let d1 = applyUpdate
                           (map_option (updateById (w_id w))
                              (updateDataOf UserCancelledReceipt q now)) d
                in
                 (case findByPk (w_id w) d1 of
                    Some u \<Rightarrow>
                      Outcome d1 (Status (viewOf u) (Some (q_state q)) None)
                        [QueryTransferBill outBatchNo]
                  | None \<Rightarrow> Outcome d1 (Next (Thrown (ApiError None None ''TypeError'')))
                              [QueryTransferBill outBatchNo])))))"

text \<open>
  What \<open>handlePaymentNotify\<close> hands to the withdrawal webhook: whether signature check and
  decryption succeeded, and the decrypted \<open>out_bill_no\<close>.
\<close>

datatype transfer_notify = TransferNotify (tn_success: bool) (tn_out_bill_no: "string option")

text \<open>
  \<open>exports.withdrawalCallback\<close> of the current revision: after verification it queries the
  gateway for the bill and maps the queried state; a failing query is only logged.
\<close>

definition withdrawalCallback ::
  "db \<Rightarrow> transfer_notify \<Rightarrow> api_error + query_result \<Rightarrow> nat \<Rightarrow> reply outcome" where
  "withdrawalCallback d n gateway now =
     (if \<not> tn_success n then Outcome d (CallbackFail SignatureInvalid) []
      else if truthy (tn_out_bill_no n)
      then
       (let out_bill_no = the (tn_out_bill_no n) in
         (case gateway of
            Inl queryError \<Rightarrow> Outcome d CallbackSuccess [QueryTransferBill out_bill_no]
          | Inr q \<Rightarrow>
              Outcome
                (applyUpdate
                   (map_option (updateByBatchNo out_bill_no) (updateDataOf UserCancelled q now)) d)
                CallbackSuccess [QueryTransferBill out_bill_no]))
      else Outcome d CallbackSuccess [])"

text \<open>The decrypted body of the earlier webhook revision.\<close>

datatype callback_data =
  CallbackData (cb_out_bill_no: string) (cb_fail_reason: "string option")
    (cb_state: "string option") (cb_transfer_state: "string option")

text \<open>
  \<open>exports.withdrawalCallback\<close> of the earlier revision that reads \<open>state\<close> or
  \<open>transfer_state\<close> from the decrypted body: \<open>isValid\<close> is the result of
  \<open>verifySignature\<close>, \<open>decrypted\<close> is the result of \<open>decryptCallback\<close> or the message it
  throws. \<open>FAIL\<close> and \<open>CANCELLED\<close> share one branch.
\<close>

definition withdrawalCallback0 ::
  "db \<Rightarrow> bool \<Rightarrow> string + callback_data \<Rightarrow> nat \<Rightarrow> reply outcome" where
  "withdrawalCallback0 d isValid decrypted now =
     (if \<not> isValid then Outcome d (CallbackFail SignatureInvalid) []
      else
       (case decrypted of
          Inl m \<Rightarrow> Outcome d (CallbackFail (ErrorText m)) []
        | Inr res \<Rightarrow>
           (let transferState = orElse (cb_state res) (cb_transfer_state res);
                updateData =
                  (if transferState = Some ''SUCCESS''
                   then Some (\<lambda>w. w \<lparr> w_status := WSuccess, w_completed_at := Some now \<rparr>)
                   else if transferState = Some ''FAIL'' \<or> transferState = Some ''CANCELLED''
                   then Some (\<lambda>w. w \<lparr> w_status := WFailed,
                                      w_fail_reason := Some (if truthy (cb_fail_reason res)
                                                             then Given (the (cb_fail_reason res))
                                                             else TransferFailed) \<rparr>)
                   else None)
            in Outcome
                 (applyUpdate (map_option (updateByBatchNo (cb_out_bill_no res)) updateData) d)
                 CallbackSuccess [])))"

text \<open>
  \<open>exports.cancelWithdrawal\<close>. \<open>gateway\<close> is what \<open>cancelTransferBill\<close> does if it is
  called; when it throws, the error goes to \<open>next\<close> and nothing is written. The store is
  taken to accept the status \<open>cancelled\<close>; the source's repair of a column enum that lacks
  it retries the same write.
\<close>

definition cancelWithdrawal ::
  "db \<Rightarrow> nat \<Rightarrow> string \<Rightarrow> api_error + cancel_result \<Rightarrow> nat \<Rightarrow> reply outcome" where
  "cancelWithdrawal d electricianId outBatchNo gateway now =
     (case findOwned outBatchNo electricianId d of
        None \<Rightarrow> Outcome d (Next (AppError WithdrawalNotFound 404)) []
      | Some w \<Rightarrow>
         (if terminal (w_status w) then Outcome d (Status (viewOf w) None None) []
          else
           (case gateway of
              Inl apiError \<Rightarrow> Outcome d (Next (Thrown apiError)) [CancelTransferBill outBatchNo]
            | Inr cancelResult \<Rightarrow>
                Outcome
                  (updateById (w_id w)
                     (\<lambda>r. r \<lparr> w_status := WCancelled, w_fail_reason := Some UserCancelled,
                              w_completed_at := Some now \<rparr>) d)
                  (CancelledReply (w_id w) (w_amount w) (w_out_batch_no w)
                     (orElse (x_transfer_bill_no cancelResult) (w_transfer_bill_no w))
                     (x_state cancelResult) (Some now))
                  [CancelTransferBill outBatchNo])))"

section \<open>Payment controller\<close>

text \<open>
  The result of \<open>handlePaymentNotify\<close>: signature verification and decryption are the
  gateway adapter's; the controller sees their outcome and the decrypted fields.
\<close>

datatype notify_result =
  NotifyResult (n_success: bool) (n_error: string) (n_out_trade_no: string)
    (n_transaction_id: "string option") (n_trade_state: string) (n_success_time: "nat option")

text \<open>
  Messages of \<open>generateFailResponse\<close>: the verification error, "payment record does not
  exist", "handling failed".
\<close>

datatype fail_text = VerifyFailed string | PaymentNotFound | HandlingFailed

datatype notify_reply = SuccessResponse | FailResponse fail_text

definition updatePayments :: "string \<Rightarrow> (payment \<Rightarrow> payment) \<Rightarrow> db \<Rightarrow> db" where
  "updatePayments no f d =
     d \<lparr> payments := map (\<lambda>p. if p_out_trade_no p = no then f p else p) (payments d) \<rparr>"

definition updateOrder :: "nat \<Rightarrow> (order \<Rightarrow> order) \<Rightarrow> db \<Rightarrow> db" where
  "updateOrder i f d = d \<lparr> orders := map (\<lambda>r. if o_id r = i then f r else r) (orders d) \<rparr>"

definition findPayment :: "string \<Rightarrow> db \<Rightarrow> payment option" where
  "findPayment no d = find (\<lambda>p. p_out_trade_no p = no) (payments d)"

definition findOrder :: "nat \<Rightarrow> db \<Rightarrow> order option" where
  "findOrder i d = find (\<lambda>r. o_id r = i) (orders d)"

text \<open>
  \<open>transitionRepairPaymentSuccess(order, operatorId)\<close> with its default remark: the order
  goes to \<open>in_progress\<close>, a status-log row from the order's previous status is appended,
  the user is notified, and so is the electrician when the order has one.
\<close>

definition transitionRepairPaymentSuccess :: "order \<Rightarrow> nat \<Rightarrow> nat \<Rightarrow> db \<Rightarrow> db" where
  "transitionRepairPaymentSuccess ord operatorId now d =
     (let d1 = updateOrder (o_id ord)
                 (\<lambda>r. r \<lparr> o_status := InProgress, o_repair_paid_at := Some now \<rparr>) d;
          d2 = d1 \<lparr> status_logs := status_logs d1 @
                 [\<lparr> l_order_id = o_id ord, l_from_status = Some (o_status ord),
                    l_to_status = InProgress,
                    l_operator_id = (if operatorId \<noteq> 0 then operatorId else o_user_id ord),
                    l_operator_type = (if operatorId \<noteq> 0 then OpUser else OpSystem),
                    l_remark = RepairPaidInProgressRemark \<rparr>] \<rparr>;
          d3 = d2 \<lparr> messages := messages d2 @
                 [\<lparr> m_user_id = o_user_id ord, m_notice = RepairPaidNotice (o_order_no ord),
                    m_related_id = o_id ord \<rparr>] \<rparr>
      in if o_electrician_id ord \<noteq> None \<and> o_electrician_id ord \<noteq> Some 0
         then d3 \<lparr> messages := messages d3 @
                [\<lparr> m_user_id = the (o_electrician_id ord),
                   m_notice = RepairPaidElectricianNotice (o_order_no ord),
                   m_related_id = o_id ord \<rparr>] \<rparr>
         else d3)"

text \<open>
  The prepay branch, written out identically in \<open>wechatNotify\<close> and \<open>queryPayment\<close>: the
  order goes to \<open>pending\<close>, a status-log row and a notification are appended.
\<close>

definition prepayPaid :: "payment \<Rightarrow> order \<Rightarrow> nat \<Rightarrow> db \<Rightarrow> db" where
  "prepayPaid pay ord now d =
     (let d1 = updateOrder (p_order_id pay)
                 (\<lambda>r. r \<lparr> o_status := Pending, o_prepaid_at := Some now \<rparr>) d;
          d2 = d1 \<lparr> status_logs := status_logs d1 @
                 [\<lparr> l_order_id = p_order_id pay, l_from_status = None, l_to_status = Pending,
                    l_operator_id = o_user_id ord, l_operator_type = OpUser,
                    l_remark = PrepayPaidRemark \<rparr>] \<rparr>
      in d2 \<lparr> messages := messages d2 @
            [\<lparr> m_user_id = o_user_id ord, m_notice = PrepayPaidNotice (o_order_no ord),
               m_related_id = o_id ord \<rparr>] \<rparr>)"

text \<open>
  \<open>PaymentController.wechatNotify\<close>. \<open>paid_at\<close> is the notification's \<open>success_time\<close> when
  present, the current time otherwise. The decrypted \<open>trade_state\<close> is logged and not
  otherwise read.
\<close>

definition wechatNotify :: "db \<Rightarrow> notify_result \<Rightarrow> nat \<Rightarrow> db \<times> notify_reply" where
  "wechatNotify d notifyResult now =
     (if \<not> n_success notifyResult then (d, FailResponse (VerifyFailed (n_error notifyResult)))
      else
       (case findPayment (n_out_trade_no notifyResult) d of
          None \<Rightarrow> (d, FailResponse PaymentNotFound)
        | Some pay \<Rightarrow>
           (if p_status pay = PSuccess then (d, SuccessResponse)
            else
             (let d1 = updatePayments (n_out_trade_no notifyResult)
                         (\<lambda>p. p \<lparr> p_status := PSuccess,
                                  p_transaction_id := n_transaction_id notifyResult,
                                  p_paid_at := Some (case n_success_time notifyResult of
                                                       Some t \<Rightarrow> t | None \<Rightarrow> now) \<rparr>) d
              in
               (case findOrder (p_order_id pay) d1 of
                  Some ord \<Rightarrow>
                    (if p_type pay = Prepay then (prepayPaid pay ord now d1, SuccessResponse)
                     else (transitionRepairPaymentSuccess ord (o_user_id ord) now d1,
                           SuccessResponse))
                | None \<Rightarrow> (d1, SuccessResponse))))))"

text \<open>The result of \<open>queryOrder\<close>.\<close>

datatype order_query =
  OrderQuery (oq_success: bool) (oq_trade_state: string) (oq_transaction_id: "string option")

text \<open>Replies of \<open>queryPayment\<close>: 404, 403, or the payment as last read.\<close>

datatype payment_reply = NoSuchPayment | NotYourPayment | PaymentReply "payment option"

text \<open>
  \<open>PaymentController.queryPayment\<close>. \<open>gateway\<close> is what \<open>queryOrder\<close> does if it is
  called; a thrown error is caught and logged. In the non-prepay branch only a status-log
  row and a notification are written.
\<close>

definition queryPayment ::
  "db \<Rightarrow> string \<Rightarrow> nat \<Rightarrow> string + order_query \<Rightarrow> nat \<Rightarrow> payment_reply outcome" where
  "queryPayment d payment_no userId gateway now =
     (case findPayment payment_no d of
        None \<Rightarrow> Outcome d NoSuchPayment []
      | Some pay \<Rightarrow>
         (if p_user_id pay \<noteq> userId then Outcome d NotYourPayment []
          else if p_status pay = PPending \<and> p_payment_method pay = ''wechat''
          then
           (case gateway of
              Inl thrown \<Rightarrow> Outcome d (PaymentReply (Some pay)) [QueryOrder payment_no]
            | Inr queryResult \<Rightarrow>
               (if oq_success queryResult \<and> oq_trade_state queryResult = ''SUCCESS''
                then
                 (let d1 = updatePayments payment_no
                             (\<lambda>p. p \<lparr> p_status := PSuccess,
                                      p_transaction_id := oq_transaction_id queryResult,
                                      p_paid_at := Some now \<rparr>) d;
                      d2 = (case findOrder (p_order_id pay) d1 of
                              None \<Rightarrow> d1
                            | Some ord \<Rightarrow>
                               (if p_type pay = Prepay then prepayPaid pay ord now d1
                                else
                                 (let d3 = d1 \<lparr> status_logs := status_logs d1 @
                                             [\<lparr> l_order_id = p_order_id pay,
                                                l_from_status = None,
                                                l_to_status = PendingRepairPayment,
                                                l_operator_id = o_user_id ord,
                                                l_operator_type = OpUser,
                                                l_remark = RepairPaidRemark \<rparr>] \<rparr>
                                  in d3 \<lparr> messages := messages d3 @
                                        [\<lparr> m_user_id = o_user_id ord,
                                           m_notice = RepairPaidWaitNotice (o_order_no ord),
                                           m_related_id = o_id ord \<rparr>] \<rparr>)))
                  in Outcome d2 (PaymentReply (findPayment payment_no d2)) [QueryOrder payment_no])
                else if oq_success queryResult \<and> oq_trade_state queryResult = ''CLOSED''
                then
                 (let d1 = updatePayments payment_no
                             (\<lambda>p. p \<lparr> p_status := PExpired,
                                      p_failed_reason := Some PaymentTimeoutClosed \<rparr>) d
                  in Outcome d1 (PaymentReply (findPayment payment_no d1)) [QueryOrder payment_no])
                else Outcome d (PaymentReply (Some pay)) [QueryOrder payment_no]))
          else Outcome d (PaymentReply (Some pay)) []))"

section \<open>Operations and interleaved requests\<close>

text \<open>Every state-changing entry point with the inputs it reads from outside the store.\<close>

datatype op =
    Withdraw nat "rat option" nat string "api_error + transfer_result"
  | QueryWithdrawalStatus "nat option" "nat option" "string option" "api_error + query_result" nat
  | GetWithdrawalStatus nat string "api_error + query_result" nat
  | WithdrawalCallback transfer_notify "api_error + query_result" nat
  | WithdrawalCallback0 bool "string + callback_data" nat
  | CancelWithdrawal nat string "api_error + cancel_result" nat
  | WechatNotify notify_result nat
  | QueryPayment string nat "string + order_query" nat

fun exec :: "op \<Rightarrow> db \<Rightarrow> db" where
  "exec (Withdraw e a now r g) d = store (withdraw d e a now r g)"
| "exec (QueryWithdrawalStatus u i no g now) d = store (queryWithdrawalStatus d u i no g now)"
| "exec (GetWithdrawalStatus e no g now) d = store (getWithdrawalStatus d e no g now)"
| "exec (WithdrawalCallback n g now) d = store (withdrawalCallback d n g now)"
| "exec (WithdrawalCallback0 v b now) d = store (withdrawalCallback0 d v b now)"
| "exec (CancelWithdrawal e no g now) d = store (cancelWithdrawal d e no g now)"
| "exec (WechatNotify n now) d = fst (wechatNotify d n now)"
| "exec (QueryPayment no u g now) d = store (queryPayment d no u g now)"


text \<open>
  A \<open>withdraw\<close> request in flight. The handler runs without interruption between two
  \<open>await\<close>s; here it is cut at the one place where another request's handler can see a
  committed store that this request will still write to: after \<open>t.commit()\<close>, while
  \<open>createTransferBill\<close> is awaited.
\<close>

datatype task =
    Start nat "rat option" nat string
  | Awaiting withdrawal
  | Done reply

fun advance :: "api_error + transfer_result \<Rightarrow> task \<Rightarrow> db \<Rightarrow> db \<times> task" where
  "advance g (Start e a now r) d =
     (case withdrawTx d e a now r of
        Inl err \<Rightarrow> (d, Done (withdrawCatch err))
      | Inr (d1, row) \<Rightarrow> (d1, Awaiting row))"
| "advance g (Awaiting row) d =
     (case withdrawTransfer d row g of
        (d2, res) \<Rightarrow> (d2, Done (case res of Inl err \<Rightarrow> withdrawCatch err | Inr r \<Rightarrow> r)))"
| "advance g (Done r) d = (d, Done r)"

text \<open>
  A schedule names, step by step, which request runs next and what the gateway answers if
  that step is the one receiving the answer.
\<close>

fun run :: "(nat \<times> (api_error + transfer_result)) list \<Rightarrow> db \<times> task list \<Rightarrow> db \<times> task list" where
  "run [] c = c"
| "run ((i, g) # sched) (d, ts) =
     (if i < length ts
      then (case advance g (ts ! i) d of (d1, t1) \<Rightarrow> run sched (d1, ts[i := t1]))
      else run sched (d, ts))"

definition processingCount :: "nat \<Rightarrow> db \<Rightarrow> nat" where
  "processingCount e d =
     length (filter (\<lambda>w. w_electrician_id w = e \<and> w_status w = WProcessing) (withdrawals d))"

section \<open>Reference mappings and example ledgers\<close>

text \<open>
  The state mapping as the specification words it: \<open>SUCCESS\<close>, \<open>FAIL\<close> and \<open>CANCELLED\<close>
  become \<open>success\<close>, \<open>failed\<close> and \<open>cancelled\<close>; any other state, the in-flight
  \<open>PROCESSING\<close> and \<open>WAIT_USER_CONFIRM\<close> among them, leaves the local status as it is.
\<close>

definition specLocalStatus :: "string \<Rightarrow> wstatus \<Rightarrow> wstatus" where
  "specLocalStatus st cur =
     (if st = ''SUCCESS'' then WSuccess
      else if st = ''FAIL'' then WFailed
      else if st = ''CANCELLED'' then WCancelled
      else cur)"

text \<open>The mapping of the earlier webhook revision, stated on its own: there is no \<open>cancelled\<close>.\<close>

definition earlierLocalStatus :: "string option \<Rightarrow> wstatus \<Rightarrow> wstatus" where
  "earlierLocalStatus st cur =
     (if st = Some ''SUCCESS'' then WSuccess
      else if st = Some ''FAIL'' \<or> st = Some ''CANCELLED'' then WFailed
      else cur)"

definition mkWithdrawal :: "nat \<Rightarrow> nat \<Rightarrow> rat \<Rightarrow> wstatus \<Rightarrow> string \<Rightarrow> withdrawal" where
  "mkWithdrawal i e a st no =
     \<lparr> w_id = i, w_electrician_id = e, w_amount = a, w_status = st, w_out_batch_no = no,
       w_transfer_bill_no = None, w_package_info = None, w_openid = ''openid-1'',
       w_real_name = ''Li'', total_income_snapshot = 50, withdrawn_snapshot = 0,
       available_balance_snapshot = 50, w_fail_reason = None, w_completed_at = None \<rparr>"

text \<open>Electrician 1 with a single withdrawal of 10 in status \<open>processing\<close>.\<close>

definition ledgerProcessing :: db where
  "ledgerProcessing = emptyDb \<lparr> withdrawals := [mkWithdrawal 1 1 10 WProcessing ''W1''] \<rparr>"


text \<open>
  Electrician 1, bound to WeChat and certified, with one completed five-star order paid 50:
  total income 50.00 and no withdrawals.
\<close>

definition ledger50 :: db where
  "ledger50 = emptyDb
     \<lparr> payments := [\<lparr> p_id = 1, p_order_id = 1, p_user_id = 7, p_amount = 50,
                      p_payment_method = ''wechat'', p_out_trade_no = ''PAY1'', p_type = Prepay,
                      p_status = PSuccess, p_transaction_id = Some ''tx1'', p_paid_at = Some 1,
                      p_failed_reason = None \<rparr>],
       orders := [\<lparr> o_id = 1, o_user_id = 7, o_electrician_id = Some 1, o_order_no = ''O1'',
                    o_status = Completed, o_prepaid_at = Some 1, o_repair_paid_at = None \<rparr>],
       reviews := [\<lparr> r_order_id = 1, r_rating = 5 \<rparr>],
       users := [\<lparr> u_id = 1, u_openid = Some ''openid-1'' \<rparr>],
       certifications := [\<lparr> c_user_id = 1, c_status = CertApproved, c_real_name = Some ''Li'' \<rparr>] \<rparr>"

text \<open>
  Order 1 of user 7 awaits its repair payment; the pending WeChat payment \<open>PAY2\<close> of type
  \<open>repair\<close> is for it.
\<close>

definition ledgerRepair :: db where
  "ledgerRepair = emptyDb
     \<lparr> payments := [\<lparr> p_id = 2, p_order_id = 1, p_user_id = 7, p_amount = 100,
                      p_payment_method = ''wechat'', p_out_trade_no = ''PAY2'', p_type = Repair,
                      p_status = PPending, p_transaction_id = None, p_paid_at = None,
                      p_failed_reason = None \<rparr>],
       orders := [\<lparr> o_id = 1, o_user_id = 7, o_electrician_id = Some 1, o_order_no = ''O1'',
                    o_status = PendingRepairPayment, o_prepaid_at = Some 1,
                    o_repair_paid_at = None \<rparr>] \<rparr>"

definition okTransfer :: "api_error + transfer_result" where
  "okTransfer = Inr (TransferResult (Some ''bill'') None (Some ''pkg'') (Some ''WAIT_USER_CONFIRM''))"

text \<open>
  The text \<open>withdraw\<close> records on the row when the transfer call throws: the rate-limit
  literal for status 429 or code \<open>FREQUENCY_LIMIT_EXCEED\<close>, else the error's message, else
  the default literal.
\<close>

definition failReason :: "api_error \<Rightarrow> reason" where
  "failReason apiError =
     (if e_status apiError = Some 429 \<or> e_code apiError = Some ''FREQUENCY_LIMIT_EXCEED''
      then TooFrequent
      else if e_message apiError \<noteq> [] then Given (e_message apiError) else TransferApiFailed)"

text \<open>
  \<open>createTransferBill\<close> of the gateway adapter catches whatever its HTTP request throws and
  throws a new \<open>Error\<close>: its message is a literal prefix followed by the gateway's message,
  and it carries neither \<open>status\<close> nor \<open>code\<close>.
\<close>

definition rethrown :: "string \<Rightarrow> string \<Rightarrow> api_error" where
  "rethrown prefix m = ApiError None None (prefix @ m)"

text \<open>
  What the HTTP request of the adapter throws: the response's status, the \<open>code\<close> and
  \<open>message\<close> of the response body when there is a response, and the error's own message.
\<close>

datatype http_error =
  HttpError (h_status: "nat option") (h_code: "string option") (h_data_message: "string option")
    (h_message: string)

text \<open>
  The two message literals of \<open>createTransferBill\<close>, in translation: the prefix of every
  error it throws, and the text for a response whose status is neither 200 nor 202.
\<close>

definition transferFailedText :: string where
  "transferFailedText = ''transfer failed: ''"

definition abnormalStatusText :: string where
  "abnormalStatusText = ''transfer request returned abnormal status code: ''"

text \<open>\<open>String(out_bill_no || '').replace(/[^0-9A-Za-z]/g, '').slice(0, 32)\<close>.\<close>

definition safeOutBillNo :: "string \<Rightarrow> string" where
  "safeOutBillNo out_bill_no =
     take 32 (filter (\<lambda>c. c \<in> set ''0123456789ABCDEFGHIJKLMNOPQRSTUVWXYZabcdefghijklmnopqrstuvwxyz'')
                out_bill_no)"

text \<open>
  \<open>createTransferBill\<close>. In sandbox mode it answers with a mock bill. Otherwise \<open>http\<close> is
  what the signed POST does: a response with its status and body, or a thrown error. A
  response status other than 200 and 202 throws inside the \<open>try\<close>, so that error too is
  caught and thrown again as a plain \<open>Error\<close>.
\<close>

definition createTransferBill ::
  "bool \<Rightarrow> string \<Rightarrow> nat \<Rightarrow> http_error + nat \<times> transfer_result \<Rightarrow> api_error + transfer_result" where
  "createTransferBill isSandbox out_bill_no now http =
     (if isSandbox
      then Inr (TransferResult (Some (''mock_bill_'' @ dec now)) (Some (safeOutBillNo out_bill_no))
                  (Some ''mock_package_info'') (Some ''WAIT_USER_CONFIRM''))
      else
       (case http of
          Inr (status, data) \<Rightarrow>
            if status = 200 \<or> status = 202 then Inr data
            else Inl (rethrown transferFailedText (abnormalStatusText @ dec status))
        | Inl err \<Rightarrow>
            Inl (rethrown transferFailedText
                   (if truthy (h_data_message err) then the (h_data_message err)
                    else h_message err))))"

text \<open>The row a withdrawal of 50 by electrician 1 inserts into \<open>ledger50\<close> at time 3.\<close>

definition row50 :: withdrawal where
  "row50 = \<lparr> w_id = 1, w_electrician_id = 1, w_amount = 50, w_status = WPending,
            w_out_batch_no = generateOutBatchNo 1 3 ''c0ffee00'', w_transfer_bill_no = None,
            w_package_info = None, w_openid = ''openid-1'', w_real_name = ''Li'',
            total_income_snapshot = 50, withdrawn_snapshot = 0,
            available_balance_snapshot = 50, w_fail_reason = None, w_completed_at = None \<rparr>"

declare dec.simps [simp del]

section \<open>Balance calculator: what each revision sums\<close>

lemma sum_list_filter_if:
  "sum_list (map f (filter P xs)) = (\<Sum>x\<leftarrow>xs. if P x then f x else (0::rat))"
  by (induction xs) auto

lemma withdrawalSum_single: "withdrawalSum d e [st] = amountIn d e st"
  by (simp add: withdrawalSum_def amountIn_def sum_list_filter_if)

lemma sum_list_if_split:
  "st \<noteq> st' \<Longrightarrow>
   (\<Sum>w\<leftarrow>ws. if w_electrician_id w = e \<and> (w_status w = st \<or> w_status w = st')
                then w_amount w else 0)
   = (\<Sum>w\<leftarrow>ws. if w_electrician_id w = e \<and> w_status w = st then w_amount w else 0)
     + (\<Sum>w\<leftarrow>ws. if w_electrician_id w = e \<and> w_status w = st' then w_amount w else (0::rat))"
  by (induction ws) auto

lemma withdrawalSum_pair:
  "st \<noteq> st' \<Longrightarrow> withdrawalSum d e [st, st'] = amountIn d e st + amountIn d e st'"
  by (simp add: withdrawalSum_def amountIn_def sum_list_filter_if sum_list_if_split)

text \<open>Rounding to two places leaves a two-place value alone.\<close>

lemma toFixed2_cents: "cents x \<Longrightarrow> toFixed2 x = x"
proof -
  assume c: "cents x"
  define n where "n = \<lfloor>x * 100\<rfloor>"
  have x: "x * 100 = of_int n"
    using c unfolding cents_def n_def by (rule sym)
  have up: "\<lfloor>(of_int n :: rat) + 1 / 2\<rfloor> = n"
    by linarith
  have down: "\<lfloor>- (of_int n :: rat) + 1 / 2\<rfloor> = - n"
    by linarith
  have xv: "x = of_int n / 100"
    using x by simp
  show ?thesis
    unfolding toFixed2_def using up down by (simp add: xv)
qed

lemma cents_numeral [simp]: "cents (numeral k)" "cents 0"
  by (simp_all add: cents_def)

lemma cents_add: "cents x \<Longrightarrow> cents y \<Longrightarrow> cents (x + y)"
proof -
  assume cx: "cents x" and cy: "cents y"
  have "x * 100 = of_int \<lfloor>x * 100\<rfloor>"
    using cx unfolding cents_def by (rule sym)
  moreover have "y * 100 = of_int \<lfloor>y * 100\<rfloor>"
    using cy unfolding cents_def by (rule sym)
  ultimately have "(x + y) * 100 = of_int (\<lfloor>x * 100\<rfloor> + \<lfloor>y * 100\<rfloor>)"
    by (simp add: distrib_right)
  then show ?thesis
    unfolding cents_def by (metis floor_of_int)
qed

lemma cents_minus: "cents x \<Longrightarrow> cents (- x)"
proof -
  assume "cents x"
  then have "x * 100 = of_int \<lfloor>x * 100\<rfloor>"
    unfolding cents_def by (rule sym)
  then have "(- x) * 100 = of_int (- \<lfloor>x * 100\<rfloor>)"
    by simp
  then show ?thesis
    unfolding cents_def by (metis floor_of_int)
qed

lemma cents_diff: "cents x \<Longrightarrow> cents y \<Longrightarrow> cents (x - y)"
  using cents_add[of x "- y"] cents_minus[of y] by simp

lemma cents_sum_list: "list_all cents xs \<Longrightarrow> cents (sum_list xs)"
  by (induction xs) (simp_all add: cents_add)

lemma list_all_map_filter: "list_all (\<lambda>x. P (f x)) xs \<Longrightarrow> list_all P (map f (filter Q xs))"
  by (induction xs) auto

text \<open>
  On a ledger whose amounts have two decimal places, as the columns hold them, the rounding
  of the current revision changes nothing: the returned fields are the sums themselves and
  the available balance is their difference.
\<close>

lemma calculateBalance_cents:
  assumes "list_all (\<lambda>w. cents (w_amount w)) (withdrawals d)"
    and "list_all (\<lambda>p. cents (p_amount p)) (payments d)"
  shows "withdrawnAmount (calculateBalance d e) = amountIn d e WSuccess"
    and "lockedAmount (calculateBalance d e) = amountIn d e WProcessing"
    and "availableBalance (calculateBalance d e)
           = totalIncome (calculateBalance d e) - withdrawnAmount (calculateBalance d e)
             - lockedAmount (calculateBalance d e)"
proof -
  have w: "cents (withdrawalSum d e sts)" for sts
    unfolding withdrawalSum_def
    by (rule cents_sum_list)
       (rule list_all_map_filter[where P = cents and f = w_amount, OF assms(1)])
  have i: "cents (incomeSum d e)"
    unfolding incomeSum_def Let_def
    by (auto intro!: cents_sum_list
          list_all_map_filter[where P = cents and f = p_amount, OF assms(2)])
  have a: "cents (incomeSum d e - withdrawalSum d e [WSuccess] - withdrawalSum d e [WProcessing])"
    by (intro cents_diff i w)
  show "withdrawnAmount (calculateBalance d e) = amountIn d e WSuccess"
    using w[of "[WSuccess]"]
    by (simp add: calculateBalance_def Let_def toFixed2_cents withdrawalSum_single)
  show "lockedAmount (calculateBalance d e) = amountIn d e WProcessing"
    using w[of "[WProcessing]"]
    by (simp add: calculateBalance_def Let_def toFixed2_cents withdrawalSum_single)
  show "availableBalance (calculateBalance d e)
           = totalIncome (calculateBalance d e) - withdrawnAmount (calculateBalance d e)
             - lockedAmount (calculateBalance d e)"
    using w[of "[WSuccess]"] w[of "[WProcessing]"] i a
    by (simp add: calculateBalance_def Let_def toFixed2_cents)
qed

text \<open>
  C1, as the code has it. In the current revision \<open>calculateBalance\<close> returns as
  \<open>withdrawnAmount\<close> the two-place rounding of the sum of the electrician's \<open>success\<close>
  withdrawals only, as \<open>lockedAmount\<close> that of the \<open>processing\<close> ones, and as
  \<open>availableBalance\<close> the two-place rounding of total income minus both sums. In the
  earlier revisions \<open>withdrawnAmount\<close> is the rounding of the sum over \<open>success\<close> and
  \<open>processing\<close> rows together and there is no \<open>lockedAmount\<close>; the available balance is
  the same number in every revision.
\<close>

theorem calculateBalance_revisions:
  "withdrawnAmount (calculateBalance d e) = toFixed2 (amountIn d e WSuccess)
   \<and> lockedAmount (calculateBalance d e) = toFixed2 (amountIn d e WProcessing)
   \<and> availableBalance (calculateBalance d e)
       = toFixed2 (incomeSum d e - amountIn d e WSuccess - amountIn d e WProcessing)
   \<and> withdrawnAmount0 (calculateBalance0 d e)
       = toFixed2 (amountIn d e WSuccess + amountIn d e WProcessing)
   \<and> availableBalance0 (calculateBalance0 d e) = availableBalance (calculateBalance d e)"
  by (simp add: calculateBalance_def calculateBalance0_def Let_def withdrawalSum_single
      withdrawalSum_pair algebra_simps)

text \<open>
  C1 as stated fails on the earlier revision: with one \<open>processing\<close> withdrawal of 10 and
  no \<open>success\<close> one, its \<open>withdrawnAmount\<close> is 10, not the sum over \<open>success\<close> rows.
\<close>

theorem calculateBalance0_counts_processing:
  "withdrawnAmount0 (calculateBalance0 ledgerProcessing 1) \<noteq> amountIn ledgerProcessing 1 WSuccess"
  by (simp add: calculateBalance0_def ledgerProcessing_def emptyDb_def mkWithdrawal_def
      withdrawalSum_def incomeSum_def eligibleOrderIds_def amountIn_def toFixed2_cents)

lemma ledger50_balance:
  "calculateBalance ledger50 1
     = \<lparr> totalIncome = 50, withdrawnAmount = 0, lockedAmount = 0, availableBalance = 50 \<rparr>"
  by (simp add: calculateBalance_def ledger50_def emptyDb_def
      withdrawalSum_def incomeSum_def eligibleOrderIds_def toFixed2_cents)

lemma ledger50_balance_Suc:
  "calculateBalance ledger50 (Suc 0)
     = \<lparr> totalIncome = 50, withdrawnAmount = 0, lockedAmount = 0, availableBalance = 50 \<rparr>"
  using ledger50_balance by simp

lemma ledger50_fields:
  "withdrawals ledger50 = []"
  "users ledger50 = [\<lparr> u_id = 1, u_openid = Some ''openid-1'' \<rparr>]"
  "certifications ledger50
     = [\<lparr> c_user_id = 1, c_status = CertApproved, c_real_name = Some ''Li'' \<rparr>]"
  by (simp_all add: ledger50_def emptyDb_def)

section \<open>Creating a withdrawal\<close>

lemma find_SomeD: "find P xs = Some x \<Longrightarrow> P x \<and> x \<in> set xs"
  by (induction xs) (auto split: if_splits)

lemma find_map_keep:
  "(\<And>x. P (f x) = P x) \<Longrightarrow> find P (map f xs) = map_option f (find P xs)"
  by (induction xs) auto


text \<open>The id of a new row is above every id in the table.\<close>

lemma nextId_fresh: "w \<in> set ws \<Longrightarrow> w_id w < nextId ws"
proof -
  assume "w \<in> set ws"
  then have "w_id w \<in> insert 0 (set (map w_id ws))"
    by simp
  then have "w_id w \<le> Max (insert 0 (set (map w_id ws)))"
    by (intro Max_ge) auto
  then show ?thesis
    by (simp add: nextId_def)
qed

lemma map_fresh_id:
  "(\<And>w. w \<in> set ws \<Longrightarrow> w_id w \<noteq> i) \<Longrightarrow> map (\<lambda>w. if w_id w = i then f w else w) ws = ws"
  by (induction ws) auto

lemma find_fresh_id:
  "(\<And>w. w \<in> set ws \<Longrightarrow> w_id w \<noteq> i) \<Longrightarrow>
   find (\<lambda>w. w_id w = i) (ws @ [r]) = (if w_id r = i then Some r else None)"
  by (induction ws) auto

text \<open>What a committed transaction part has done: one pending row appended, nothing else.\<close>

lemma withdrawTx_Inr:
  assumes "withdrawTx d e amount now random = Inr (d1, row)"
  shows "d1 = d \<lparr> withdrawals := withdrawals d @ [row] \<rparr>"
    and "w_id row = nextId (withdrawals d)"
    and "w_status row = WPending"
    and "w_electrician_id row = e"
    and "w_amount row = withdrawAmountOf amount (calculateBalance d e)"
  using assms
  by (auto simp: withdrawTx_def Let_def split: if_splits option.splits)

lemma updateById_new_row:
  assumes "w_id row = nextId (withdrawals d)"
  shows "withdrawals (updateById (nextId (withdrawals d)) f
                        (d \<lparr> withdrawals := withdrawals d @ [row] \<rparr>))
         = withdrawals d @ [f row]"
proof -
  have "\<And>w. w \<in> set (withdrawals d) \<Longrightarrow> w_id w \<noteq> w_id row"
    using nextId_fresh assms by fastforce
  then show ?thesis
    using assms by (simp add: updateById_def map_fresh_id)
qed

lemma findByPk_new_row:
  assumes "w_id row = nextId (withdrawals d)" and "withdrawals d' = withdrawals d @ [r]"
    and "w_id r = w_id row"
  shows "findByPk (w_id row) d' = Some r"
proof -
  have "\<And>w. w \<in> set (withdrawals d) \<Longrightarrow> w_id w \<noteq> w_id row"
    using nextId_fresh assms(1) by fastforce
  then show ?thesis
    using assms(2,3) by (simp add: findByPk_def find_fresh_id)
qed

lemma amountIn_append:
  "withdrawals d' = withdrawals d @ [r] \<Longrightarrow>
   amountIn d' e st
     = amountIn d e st + (if w_electrician_id r = e \<and> w_status r = st then w_amount r else 0)"
  by (simp add: amountIn_def)

lemma withdraw_failure_store:
  assumes "withdrawTx d e amount now random = Inr (d1, row)"
  shows "withdrawals (store (withdraw d e amount now random (Inl apiError)))
         = withdrawals d
           @ [row \<lparr> w_status := WFailed, w_fail_reason := Some (failReason apiError) \<rparr>]"
  using withdrawTx_Inr(1,2)[OF assms]
  by (simp add: withdraw_def assms withdrawTransfer_def failReason_def updateById_new_row)

text \<open>
  The handler alone, for whatever error object reaches its \<open>catch\<close>: the committed row
  ends \<open>failed\<close> with a recorded reason, the locked amount of every electrician is what it
  was before the request, exactly one gateway call was made, and the reply is the 429 body
  for an error object with status 429 or code \<open>FREQUENCY_LIMIT_EXCEED\<close>, the 500 error
  otherwise.
\<close>

lemma withdraw_gateway_failure:
  assumes "withdrawTx d e amount now random = Inr (d1, row)"
  shows "map_option w_status
           (findByPk (w_id row) (store (withdraw d e amount now random (Inl apiError))))
           = Some WFailed
       \<and> map_option w_fail_reason
           (findByPk (w_id row) (store (withdraw d e amount now random (Inl apiError))))
           = Some (Some (failReason apiError))
       \<and> lockedAmount (calculateBalance (store (withdraw d e amount now random (Inl apiError))) e')
           = lockedAmount (calculateBalance d e')
       \<and> calls (withdraw d e amount now random (Inl apiError))
           = [CreateTransferBill (w_out_batch_no row) (w_amount row)]
       \<and> reply (withdraw d e amount now random (Inl apiError))
           = (if e_status apiError = Some 429 \<or> e_code apiError = Some ''FREQUENCY_LIMIT_EXCEED''
              then RateLimited TooFrequentRetry ''RATE_LIMIT_EXCEEDED''
              else Next (AppError (WithdrawFailed (e_message apiError)) 500))"
proof -
  let ?out = "withdraw d e amount now random (Inl apiError)"
  let ?r = "row \<lparr> w_status := WFailed, w_fail_reason := Some (failReason apiError) \<rparr>"
  have st: "withdrawals (store ?out) = withdrawals d @ [?r]"
    by (rule withdraw_failure_store[OF assms])
  have f: "findByPk (w_id row) (store ?out) = Some ?r"
    by (rule findByPk_new_row[OF withdrawTx_Inr(2)[OF assms] st]) simp
  have l: "amountIn (store ?out) e' WProcessing = amountIn d e' WProcessing"
    by (simp add: amountIn_append[OF st])
  have c: "calls ?out = [CreateTransferBill (w_out_batch_no row) (w_amount row)]"
    by (simp add: withdraw_def assms split: prod.splits)
  have r: "reply ?out
           = (if e_status apiError = Some 429 \<or> e_code apiError = Some ''FREQUENCY_LIMIT_EXCEED''
              then RateLimited TooFrequentRetry ''RATE_LIMIT_EXCEEDED''
              else Next (AppError (WithdrawFailed (e_message apiError)) 500))"
    by (simp add: withdraw_def assms withdrawTransfer_def withdrawCatch_def)
  show ?thesis
    using f l c r
    by (simp add: calculateBalance_def Let_def withdrawalSum_single)
qed

text \<open>
  Behind the adapter the 429 body is out of reach: whatever the gateway answered, the error
  that arrives has no status and no code, and the reply is the 500 error.
\<close>

lemma withdraw_after_rethrow:
  assumes "withdrawTx d e amount now random = Inr (d1, row)"
  shows "reply (withdraw d e amount now random (Inl (rethrown prefix m)))
         = Next (AppError (WithdrawFailed (prefix @ m)) 500)"
  by (simp add: withdraw_def assms withdrawTransfer_def withdrawCatch_def rethrown_def)

lemma createTransferBill_plain_error:
  "createTransferBill isSandbox out_bill_no t http = Inl apiError \<Longrightarrow>
     e_status apiError = None \<and> e_code apiError = None"
  by (auto simp: createTransferBill_def rethrown_def split: if_splits sum.splits prod.splits)

lemma withdraw_never_rate_limited:
  "reply (withdraw d e amount now random (createTransferBill isSandbox out_bill_no t http))
     \<noteq> RateLimited m c"
proof (cases "withdrawTx d e amount now random")
  case (Inl err)
  then show ?thesis
    by (auto simp: withdraw_def withdrawTx_def withdrawCatch_def Let_def
        split: if_splits option.splits)
next
  case (Inr p)
  obtain d1 row where p: "p = (d1, row)"
    by (cases p)
  show ?thesis
  proof (cases "createTransferBill isSandbox out_bill_no t http")
    case (Inl apiError)
    have "e_status apiError = None \<and> e_code apiError = None"
      by (rule createTransferBill_plain_error[OF Inl])
    then show ?thesis
      by (simp add: withdraw_def Inr p Inl withdrawTransfer_def withdrawCatch_def)
  next
    case (Inr tr)
    then show ?thesis
      by (simp add: withdraw_def \<open>withdrawTx d e amount now random = Inr p\<close> p
          withdrawTransfer_def)
  qed
qed

text \<open>
  The amount that is checked is the effective one: the requested amount when it is given
  and not zero, the available balance otherwise. When that amount is below 0.10 or above
  the available balance, \<open>withdraw\<close> leaves the store as it found it, makes no gateway
  call, and hands \<open>next\<close> an error of status 400: the one of an earlier gate, or the
  below-minimum or insufficient-balance error.
\<close>

lemma withdraw_rejects_bad_amount:
  assumes "withdrawAmountOf amount (calculateBalance d e) < 1 / 10
           \<or> withdrawAmountOf amount (calculateBalance d e)
              > availableBalance (calculateBalance d e)"
  shows "store (withdraw d e amount now random g) = d
       \<and> calls (withdraw d e amount now random g) = []
       \<and> reply (withdraw d e amount now random g)
           \<in> {Next (AppError ProcessingExists 400), Next (AppError WechatNotBound 400),
              Next (AppError RealNameRequired 400), Next (AppError BelowMinimum 400),
              Next (AppError (InsufficientBalance (availableBalance (calculateBalance d e))) 400)}"
  using assms
  by (auto simp: withdraw_def withdrawTx_def withdrawCatch_def Let_def split: option.splits)

text \<open>
  The scenario of the specification: total income 50.00, no withdrawals, a request for
  60.00 is rejected with the insufficient-balance error and writes nothing.
\<close>

lemma withdraw_rejects_sixty:
  "store (withdraw ledger50 1 (Some 60) 3 ''c0ffee00'' okTransfer) = ledger50
   \<and> calls (withdraw ledger50 1 (Some 60) 3 ''c0ffee00'' okTransfer) = []
   \<and> reply (withdraw ledger50 1 (Some 60) 3 ''c0ffee00'' okTransfer)
       = Next (AppError (InsufficientBalance 50) 400)"
proof -
  have h: "withdrawAmountOf (Some 60) (calculateBalance ledger50 1) < 1 / 10
           \<or> withdrawAmountOf (Some 60) (calculateBalance ledger50 1)
              > availableBalance (calculateBalance ledger50 1)"
    by (simp add: ledger50_balance_Suc withdrawAmountOf_def)
  have r: "reply (withdraw ledger50 1 (Some 60) 3 ''c0ffee00'' okTransfer)
       = Next (AppError (InsufficientBalance 50) 400)"
    by (simp add: withdraw_def withdrawTx_def withdrawCatch_def Let_def ledger50_balance_Suc
        ledger50_fields truthy_def withdrawAmountOf_def)
  show ?thesis
    using withdraw_rejects_bad_amount[OF h, of 3 "''c0ffee00''" okTransfer] r by simp
qed

text \<open>
  C4 fails on the code for a requested amount of 0, which is below the minimum: the
  truthiness test takes the number 0 for a missing amount, a row for the whole balance of
  50 is inserted into the empty table, and the gateway is called. The same handler rejects
  a requested 0.05 with the below-minimum error, without a row or a gateway call.
\<close>

theorem withdraw_zero_amount_accepted:
  "calls (withdraw ledger50 1 (Some 0) 3 ''c0ffee00'' okTransfer) \<noteq> []
   \<and> map w_amount (withdrawals (store (withdraw ledger50 1 (Some 0) 3 ''c0ffee00'' okTransfer)))
       = [50]
   \<and> withdrawals ledger50 = []
   \<and> withdraw ledger50 1 (Some (1 / 20)) 3 ''c0ffee00'' okTransfer
       = Outcome ledger50 (Next (AppError BelowMinimum 400)) []"
  by (simp add: withdraw_def withdrawTx_def withdrawTransfer_def withdrawCatch_def Let_def
      ledger50_balance_Suc ledger50_fields truthy_def withdrawAmountOf_def okTransfer_def
      updateById_def nextId_def)

text \<open>Past the earlier gates, each bad amount gets its own error.\<close>

lemma withdraw_amount_errors:
  assumes "find (\<lambda>w. w_electrician_id w = e \<and> w_status w = WProcessing) (withdrawals d) = None"
    and "find (\<lambda>u. u_id u = e) (users d) = Some usr" and "truthy (u_openid usr)"
    and "find (\<lambda>c. c_user_id c = e \<and> c_status c = CertApproved) (certifications d) = Some cert"
    and "truthy (c_real_name cert)"
  shows "withdrawAmountOf amount (calculateBalance d e) < 1 / 10 \<Longrightarrow>
         reply (withdraw d e amount now random g) = Next (AppError BelowMinimum 400)"
    and "\<not> withdrawAmountOf amount (calculateBalance d e) < 1 / 10 \<Longrightarrow>
         withdrawAmountOf amount (calculateBalance d e)
           > availableBalance (calculateBalance d e) \<Longrightarrow>
         reply (withdraw d e amount now random g)
           = Next (AppError (InsufficientBalance (availableBalance (calculateBalance d e))) 400)"
  using assms
  by (simp_all add: withdraw_def withdrawTx_def withdrawCatch_def Let_def)

text \<open>
  A request made while the electrician has a \<open>processing\<close> withdrawal is rejected before
  any row is inserted and before any gateway call.
\<close>

lemma withdraw_rejects_when_processing:
  assumes "find (\<lambda>w. w_electrician_id w = e \<and> w_status w = WProcessing) (withdrawals d) = Some w"
  shows "withdraw d e amount now random g = Outcome d (Next (AppError ProcessingExists 400)) []"
  using assms by (simp add: withdraw_def withdrawTx_def withdrawCatch_def)

text \<open>Running the two parts of one request back to back is \<open>withdraw\<close>.\<close>

lemma advance_twice_is_withdraw:
  "advance g (snd (advance g (Start e a now r) d)) (fst (advance g (Start e a now r) d))
   = (store (withdraw d e a now r g), Done (reply (withdraw d e a now r g)))"
  by (auto simp: withdraw_def split: sum.splits prod.splits)

text \<open>
  C2 fails under interleaving. Two requests of electrician 1, each for the whole balance
  of 50: the first commits its pending row and awaits the gateway; the second then passes
  the guard, which looks for \<open>processing\<close> rows only, and the balance check, which does
  not count pending rows; both transfers are accepted, and the electrician ends with two
  \<open>processing\<close> withdrawals and an available balance of -50.
\<close>

theorem withdraw_race_two_processing:
  "processingCount 1
     (fst (run [(0, okTransfer), (1, okTransfer), (0, okTransfer), (1, okTransfer)]
             (ledger50, [Start 1 (Some 50) 3 ''aaaaaaaa'', Start 1 (Some 50) 4 ''bbbbbbbb''])))
   = 2
   \<and> availableBalance
       (calculateBalance
          (fst (run [(0, okTransfer), (1, okTransfer), (0, okTransfer), (1, okTransfer)]
                  (ledger50,
                   [Start 1 (Some 50) 3 ''aaaaaaaa'', Start 1 (Some 50) 4 ''bbbbbbbb''])))
          1)
   = - 50"
  by code_simp

section \<open>Payment webhook and payment status query\<close>

text \<open>
  C3. A verified notification whose \<open>out_trade_no\<close> finds a Payment already in status
  \<open>success\<close> gets the gateway success response and leaves the whole store as it was: the
  Payment, the order, the status logs and the notifications.
\<close>

theorem wechatNotify_duplicate_noop:
  assumes "n_success n" and "findPayment (n_out_trade_no n) d = Some pay" and "p_status pay = PSuccess"
  shows "wechatNotify d n now = (d, SuccessResponse)"
  using assms by (simp add: wechatNotify_def)

lemma findPayment_updatePayments:
  "findPayment no (updatePayments no f d) = map_option f (findPayment no d)" if "\<And>p. p_out_trade_no (f p) = p_out_trade_no p"
proof -
  have "find (\<lambda>p. p_out_trade_no p = no) (map (\<lambda>p. if p_out_trade_no p = no then f p else p) (payments d))
        = map_option (\<lambda>p. if p_out_trade_no p = no then f p else p) (find (\<lambda>p. p_out_trade_no p = no) (payments d))"
    by (rule find_map_keep) (simp add: that)
  also have "\<dots> = map_option f (find (\<lambda>p. p_out_trade_no p = no) (payments d))"
    by (cases "find (\<lambda>p. p_out_trade_no p = no) (payments d)") (auto dest: find_Some_iff[THEN iffD1])
  finally show ?thesis by (simp add: findPayment_def updatePayments_def)
qed

lemma findOrder_updateOrder:
  "findOrder i (updateOrder i f d) = map_option f (findOrder i d)" if "\<And>r. o_id (f r) = o_id r"
proof -
  have "find (\<lambda>r. o_id r = i) (map (\<lambda>r. if o_id r = i then f r else r) (orders d))
        = map_option (\<lambda>r. if o_id r = i then f r else r) (find (\<lambda>r. o_id r = i) (orders d))"
    by (rule find_map_keep) (simp add: that)
  also have "\<dots> = map_option f (find (\<lambda>r. o_id r = i) (orders d))"
    by (cases "find (\<lambda>r. o_id r = i) (orders d)") (auto dest: find_Some_iff[THEN iffD1])
  finally show ?thesis by (simp add: findOrder_def updateOrder_def)
qed

lemma payments_prepayPaid [simp]: "payments (prepayPaid pay ord now d) = payments d"
  by (simp add: prepayPaid_def Let_def updateOrder_def)

lemma payments_transition [simp]: "payments (transitionRepairPaymentSuccess ord u now d) = payments d"
  by (simp add: transitionRepairPaymentSuccess_def Let_def updateOrder_def)

lemma orders_updatePayments [simp]: "orders (updatePayments no f d) = orders d"
  "status_logs (updatePayments no f d) = status_logs d" "messages (updatePayments no f d) = messages d"
  by (simp_all add: updatePayments_def)

lemma findPayment_cong: "payments d' = payments d \<Longrightarrow> findPayment no d' = findPayment no d"
  by (simp add: findPayment_def)

lemma findOrder_cong: "orders d' = orders d \<Longrightarrow> findOrder i d' = findOrder i d"
  by (simp add: findOrder_def)

lemma findOrder_id: "findOrder i d = Some ord \<Longrightarrow> o_id ord = i"
  by (auto simp: findOrder_def dest: find_Some_iff[THEN iffD1])

text \<open>
  C10. A verified notification whose \<open>out_trade_no\<close> finds a Payment not yet in status
  \<open>success\<close>, for an order that exists, has the same effect whatever \<open>trade_state\<close> it
  carries: the reply is the success response, the Payment is \<open>success\<close> with \<open>paid_at\<close>
  stamped, the order is moved (to \<open>pending\<close> for a prepayment, to \<open>in_progress\<close>
  otherwise), one status-log row is appended and at least one notification is created.
\<close>

theorem wechatNotify_ignores_trade_state:
  assumes "findPayment no d = Some pay" and "p_status pay \<noteq> PSuccess"
    and "findOrder (p_order_id pay) d = Some ord"
  shows "wechatNotify d (NotifyResult True err no tx trade_state st) now
           = wechatNotify d (NotifyResult True err no tx ''SUCCESS'' st) now
       \<and> snd (wechatNotify d (NotifyResult True err no tx trade_state st) now) = SuccessResponse
       \<and> map_option p_status
           (findPayment no (fst (wechatNotify d (NotifyResult True err no tx trade_state st) now)))
           = Some PSuccess
       \<and> map_option p_paid_at
           (findPayment no (fst (wechatNotify d (NotifyResult True err no tx trade_state st) now)))
           = Some (Some (case st of Some t \<Rightarrow> t | None \<Rightarrow> now))
       \<and> map_option o_status
           (findOrder (p_order_id pay)
              (fst (wechatNotify d (NotifyResult True err no tx trade_state st) now)))
           = Some (if p_type pay = Prepay then Pending else InProgress)
       \<and> length (status_logs (fst (wechatNotify d (NotifyResult True err no tx trade_state st) now)))
           = Suc (length (status_logs d))
       \<and> length (messages d)
           < length (messages (fst (wechatNotify d (NotifyResult True err no tx trade_state st) now)))"
proof -
  let ?upd = "\<lambda>p. p \<lparr> p_status := PSuccess, p_transaction_id := tx,
                        p_paid_at := Some (case st of Some t \<Rightarrow> t | None \<Rightarrow> now) \<rparr>"
  let ?d1 = "updatePayments no ?upd d"
  have o1: "findOrder (p_order_id pay) ?d1 = Some ord"
    using assms(3) by (simp add: findOrder_cong[of ?d1 d])
  have p1: "findPayment no ?d1 = Some (?upd pay)"
    using assms(1) by (simp add: findPayment_updatePayments)
  have oid: "o_id ord = p_order_id pay"
    by (rule findOrder_id[OF assms(3)])
  show ?thesis
  proof (cases "p_type pay = Prepay")
    case True
    then have out: "wechatNotify d (NotifyResult True err no tx trade_state st) now
               = (prepayPaid pay ord now ?d1, SuccessResponse)" for trade_state
      using assms(1,2) o1 by (simp add: wechatNotify_def Let_def)
    have po: "findOrder (p_order_id pay) (prepayPaid pay ord now ?d1)
              = Some (ord \<lparr> o_status := Pending, o_prepaid_at := Some now \<rparr>)"
    proof -
      have "findOrder (p_order_id pay) (prepayPaid pay ord now ?d1)
            = findOrder (p_order_id pay) (updateOrder (p_order_id pay) (\<lambda>r. r \<lparr> o_status := Pending, o_prepaid_at := Some now \<rparr>) ?d1)"
        by (rule findOrder_cong) (simp add: prepayPaid_def Let_def)
      then show ?thesis using o1 by (simp add: findOrder_updateOrder)
    qed
    have pp: "findPayment no (prepayPaid pay ord now ?d1) = Some (?upd pay)"
      using p1 by (simp add: findPayment_cong[of "prepayPaid pay ord now ?d1" ?d1])
    show ?thesis
      using True po pp by (simp add: out) (simp add: prepayPaid_def Let_def updateOrder_def)
  next
    case False
    then have out: "wechatNotify d (NotifyResult True err no tx trade_state st) now
               = (transitionRepairPaymentSuccess ord (o_user_id ord) now ?d1, SuccessResponse)" for trade_state
      using assms(1,2) o1 by (simp add: wechatNotify_def Let_def)
    have po: "findOrder (p_order_id pay) (transitionRepairPaymentSuccess ord (o_user_id ord) now ?d1)
              = Some (ord \<lparr> o_status := InProgress, o_repair_paid_at := Some now \<rparr>)"
    proof -
      have "findOrder (p_order_id pay) (transitionRepairPaymentSuccess ord (o_user_id ord) now ?d1)
            = findOrder (p_order_id pay) (updateOrder (o_id ord) (\<lambda>r. r \<lparr> o_status := InProgress, o_repair_paid_at := Some now \<rparr>) ?d1)"
        by (rule findOrder_cong) (simp add: transitionRepairPaymentSuccess_def Let_def)
      then show ?thesis using o1 by (simp add: oid findOrder_updateOrder)
    qed
    have pp: "findPayment no (transitionRepairPaymentSuccess ord (o_user_id ord) now ?d1) = Some (?upd pay)"
      using p1 by (simp add: findPayment_cong[of "transitionRepairPaymentSuccess ord (o_user_id ord) now ?d1" ?d1])
    show ?thesis
      using False po pp by (simp add: out) (simp add: transitionRepairPaymentSuccess_def Let_def updateOrder_def)
  qed
qed

text \<open>
  The parts of the payment status query that hold: a Payment that is not pending comes
  back as stored, with no gateway call; a throwing gateway query leaves the store alone
  and the reply is the Payment as last read; \<open>CLOSED\<close> marks the Payment \<open>expired\<close>.
\<close>

lemma queryPayment_terminal:
  assumes "findPayment no d = Some pay" and "p_user_id pay = u" and "p_status pay \<noteq> PPending"
  shows "queryPayment d no u g now = Outcome d (PaymentReply (Some pay)) []"
  using assms by (simp add: queryPayment_def)

lemma queryPayment_gateway_failure:
  assumes "findPayment no d = Some pay" and "p_user_id pay = u"
  shows "store (queryPayment d no u (Inl thrown) now) = d
       \<and> reply (queryPayment d no u (Inl thrown) now) = PaymentReply (Some pay)"
  using assms by (simp add: queryPayment_def)

lemma queryPayment_closed:
  assumes "findPayment no d = Some pay" and "p_user_id pay = u" and "p_status pay = PPending"
    and "p_payment_method pay = ''wechat''"
  shows "map_option p_status
           (findPayment no (store (queryPayment d no u (Inr (OrderQuery True ''CLOSED'' tx)) now)))
         = Some PExpired"
  using assms by (simp add: queryPayment_def Let_def findPayment_updatePayments)

text \<open>
  C7 fails on the success path of a repair payment. For the pending repair payment of an
  order awaiting it, a status query that learns \<open>SUCCESS\<close> from the gateway marks the
  Payment \<open>success\<close> and leaves the order in \<open>pending_repair_payment\<close>, while the webhook
  on the same ledger moves the order to \<open>in_progress\<close>.
\<close>

theorem queryPayment_repair_order_not_advanced:
  "map o_status (orders (store (queryPayment ledgerRepair ''PAY2'' 7
                                  (Inr (OrderQuery True ''SUCCESS'' (Some ''tx2''))) 5)))
     = [PendingRepairPayment]
   \<and> map o_status (orders (fst (wechatNotify ledgerRepair
                                  (NotifyResult True [] ''PAY2'' (Some ''tx2'') ''SUCCESS'' None) 5)))
     = [InProgress]
   \<and> map p_status (payments (store (queryPayment ledgerRepair ''PAY2'' 7
                                  (Inr (OrderQuery True ''SUCCESS'' (Some ''tx2''))) 5)))
     = [PSuccess]"
  by (simp add: queryPayment_def wechatNotify_def ledgerRepair_def emptyDb_def findPayment_def
      findOrder_def updatePayments_def updateOrder_def transitionRepairPaymentSuccess_def Let_def)

section \<open>Mapping gateway states to local statuses\<close>

lemma findOwned_alt:
  "find (\<lambda>w. w_electrician_id w = e \<and> w_out_batch_no w = no) (withdrawals d) = findOwned no e d"
  by (simp add: findOwned_def conj_commute)

lemma findOwned_updateById:
  assumes "findOwned no e d = Some w"
    and "\<And>r. w_out_batch_no (f r) = w_out_batch_no r \<and> w_electrician_id (f r) = w_electrician_id r"
  shows "findOwned no e (updateById (w_id w) f d) = Some (f w)"
proof -
  let ?P = "\<lambda>w. w_out_batch_no w = no \<and> w_electrician_id w = e"
  let ?g = "\<lambda>r. if w_id r = w_id w then f r else r"
  have "find ?P (map ?g (withdrawals d)) = map_option ?g (find ?P (withdrawals d))"
    by (rule find_map_keep) (simp add: assms(2))
  then show ?thesis
    using assms(1) by (simp add: findOwned_def updateById_def)
qed

lemma findOwned_updateByBatchNo:
  assumes "findOwned no e d = Some w"
    and "\<And>r. w_out_batch_no (f r) = w_out_batch_no r \<and> w_electrician_id (f r) = w_electrician_id r"
  shows "findOwned no e (updateByBatchNo no f d) = Some (f w)"
proof -
  let ?P = "\<lambda>w. w_out_batch_no w = no \<and> w_electrician_id w = e"
  let ?g = "\<lambda>r. if w_out_batch_no r = no then f r else r"
  have w: "w_out_batch_no w = no"
    using find_SomeD[of ?P "withdrawals d" w] assms(1) by (simp add: findOwned_def)
  have "find ?P (map ?g (withdrawals d)) = map_option ?g (find ?P (withdrawals d))"
    by (rule find_map_keep) (simp add: assms(2))
  then show ?thesis
    using assms(1) w by (simp add: findOwned_def updateByBatchNo_def)
qed

lemma updateDataOf_keeps:
  "updateDataOf c q now = Some f \<Longrightarrow>
     w_out_batch_no (f r) = w_out_batch_no r \<and> w_electrician_id (f r) = w_electrician_id r
     \<and> w_id (f r) = w_id r \<and> total_income_snapshot (f r) = total_income_snapshot r
     \<and> withdrawn_snapshot (f r) = withdrawn_snapshot r
     \<and> available_balance_snapshot (f r) = available_balance_snapshot r"
  by (auto simp: updateDataOf_def split: if_splits)

lemma updateDataOf_status:
  "updateDataOf c q now = Some f \<Longrightarrow> w_status (f r) = specLocalStatus (q_state q) (w_status r)"
  "updateDataOf c q now = None \<Longrightarrow> specLocalStatus (q_state q) cur = cur"
  by (auto simp: updateDataOf_def specLocalStatus_def split: if_splits)

lemma store_queryWithdrawalStatus:
  assumes "findOwned no e d = Some w" and "\<not> terminal (w_status w)" and "e \<noteq> 0" and "no \<noteq> []"
  shows "store (queryWithdrawalStatus d (Some e) None (Some no) (Inr q) now)
         = applyUpdate (map_option (updateById (w_id w)) (updateDataOf UserCancelled q now)) d"
  using assms
  by (simp add: queryWithdrawalStatus_def Let_def truthy_def findOwned_alt split: option.splits)

lemma store_getWithdrawalStatus:
  assumes "findOwned no e d = Some w" and "\<not> terminal (w_status w)"
  shows "store (getWithdrawalStatus d e no (Inr q) now)
         = applyUpdate (map_option (updateById (w_id w)) (updateDataOf UserCancelledReceipt q now)) d"
  using assms
  by (simp add: getWithdrawalStatus_def Let_def split: option.splits)

lemma store_withdrawalCallback:
  assumes "no \<noteq> []"
  shows "store (withdrawalCallback d (TransferNotify True (Some no)) (Inr q) now)
         = applyUpdate (map_option (updateByBatchNo no) (updateDataOf UserCancelled q now)) d"
  using assms
  by (simp add: withdrawalCallback_def Let_def truthy_def)

lemma status_after_byId:
  assumes "findOwned no e d = Some w"
  shows "map_option w_status
           (findOwned no e (applyUpdate (map_option (updateById (w_id w)) (updateDataOf c q now)) d))
         = Some (specLocalStatus (q_state q) (w_status w))"
proof (cases "updateDataOf c q now")
  case None
  then show ?thesis using assms by (simp add: applyUpdate_def updateDataOf_status(2))
next
  case (Some f)
  have "findOwned no e (updateById (w_id w) f d) = Some (f w)"
    by (rule findOwned_updateById[OF assms]) (simp add: updateDataOf_keeps[OF Some])
  then show ?thesis using Some by (simp add: applyUpdate_def updateDataOf_status(1)[OF Some])
qed

lemma status_after_byBatchNo:
  assumes "findOwned no e d = Some w"
  shows "map_option w_status
           (findOwned no e (applyUpdate (map_option (updateByBatchNo no) (updateDataOf c q now)) d))
         = Some (specLocalStatus (q_state q) (w_status w))"
proof (cases "updateDataOf c q now")
  case None
  then show ?thesis using assms by (simp add: applyUpdate_def updateDataOf_status(2))
next
  case (Some f)
  have "findOwned no e (updateByBatchNo no f d) = Some (f w)"
    by (rule findOwned_updateByBatchNo[OF assms]) (simp add: updateDataOf_keeps[OF Some])
  then show ?thesis using Some by (simp add: applyUpdate_def updateDataOf_status(1)[OF Some])
qed

lemma status_after_callback0:
  assumes "findOwned no e d = Some w"
  shows "map_option w_status
           (findOwned no e (store (withdrawalCallback0 d True (Inr (CallbackData no fr st ts)) now)))
         = Some (earlierLocalStatus (orElse st ts) (w_status w))"
proof -
  consider (s) "orElse st ts = Some ''SUCCESS''"
    | (f) "orElse st ts \<noteq> Some ''SUCCESS''" "orElse st ts = Some ''FAIL'' \<or> orElse st ts = Some ''CANCELLED''"
    | (n) "orElse st ts \<noteq> Some ''SUCCESS''" "orElse st ts \<noteq> Some ''FAIL''" "orElse st ts \<noteq> Some ''CANCELLED''"
    by blast
  then show ?thesis
  proof cases
    case s
    have "findOwned no e (updateByBatchNo no (\<lambda>w. w \<lparr> w_status := WSuccess, w_completed_at := Some now \<rparr>) d)
          = Some (w \<lparr> w_status := WSuccess, w_completed_at := Some now \<rparr>)"
      by (rule findOwned_updateByBatchNo[OF assms]) simp
    then show ?thesis
      using s by (simp add: withdrawalCallback0_def Let_def applyUpdate_def earlierLocalStatus_def)
  next
    case f
    let ?f = "\<lambda>w. w \<lparr> w_status := WFailed,
                        w_fail_reason := Some (if truthy fr then Given (the fr) else TransferFailed) \<rparr>"
    have "findOwned no e (updateByBatchNo no ?f d) = Some (?f w)"
      by (rule findOwned_updateByBatchNo[OF assms]) simp
    then show ?thesis
      using f by (auto simp add: withdrawalCallback0_def Let_def applyUpdate_def earlierLocalStatus_def)
  next
    case n
    then show ?thesis
      using assms by (simp add: withdrawalCallback0_def Let_def applyUpdate_def earlierLocalStatus_def)
  qed
qed

lemma inflight_no_update:
  "q_state q = ''PROCESSING'' \<or> q_state q = ''WAIT_USER_CONFIRM'' \<Longrightarrow> updateDataOf c q now = None"
  by (auto simp: updateDataOf_def)

text \<open>
  C6, as the code has it. For a non-terminal withdrawal found by batch number and
  electrician, the two status queries and the current webhook (which asks the gateway for
  the bill's state) leave it with the status the specification's mapping gives for the
  gateway state: \<open>success\<close> for \<open>SUCCESS\<close>, \<open>failed\<close> for \<open>FAIL\<close>, \<open>cancelled\<close> for
  \<open>CANCELLED\<close>, unchanged otherwise, and for \<open>PROCESSING\<close> and \<open>WAIT_USER_CONFIRM\<close> the
  whole store is unchanged. The earlier webhook revision maps \<open>SUCCESS\<close> to \<open>success\<close>
  and both \<open>FAIL\<close> and \<open>CANCELLED\<close> to \<open>failed\<close>.
\<close>

theorem status_mapping:
  assumes "findOwned no e d = Some w" and "\<not> terminal (w_status w)" and "e \<noteq> 0" and "no \<noteq> []"
  shows "map_option w_status
           (findOwned no e (store (queryWithdrawalStatus d (Some e) None (Some no) (Inr q) now)))
           = Some (specLocalStatus (q_state q) (w_status w))
       \<and> map_option w_status (findOwned no e (store (getWithdrawalStatus d e no (Inr q) now)))
           = Some (specLocalStatus (q_state q) (w_status w))
       \<and> map_option w_status
           (findOwned no e (store (withdrawalCallback d (TransferNotify True (Some no)) (Inr q) now)))
           = Some (specLocalStatus (q_state q) (w_status w))
       \<and> map_option w_status
           (findOwned no e (store (withdrawalCallback0 d True (Inr (CallbackData no fr st ts)) now)))
           = Some (earlierLocalStatus (orElse st ts) (w_status w))
       \<and> (q_state q = ''PROCESSING'' \<or> q_state q = ''WAIT_USER_CONFIRM'' \<longrightarrow>
            store (queryWithdrawalStatus d (Some e) None (Some no) (Inr q) now) = d
            \<and> store (getWithdrawalStatus d e no (Inr q) now) = d
            \<and> store (withdrawalCallback d (TransferNotify True (Some no)) (Inr q) now) = d)"
proof -
  have a: "store (queryWithdrawalStatus d (Some e) None (Some no) (Inr q) now)
           = applyUpdate (map_option (updateById (w_id w)) (updateDataOf UserCancelled q now)) d"
    by (rule store_queryWithdrawalStatus[OF assms])
  have b: "store (getWithdrawalStatus d e no (Inr q) now)
           = applyUpdate (map_option (updateById (w_id w)) (updateDataOf UserCancelledReceipt q now)) d"
    by (rule store_getWithdrawalStatus[OF assms(1,2)])
  have c: "store (withdrawalCallback d (TransferNotify True (Some no)) (Inr q) now)
           = applyUpdate (map_option (updateByBatchNo no) (updateDataOf UserCancelled q now)) d"
    by (rule store_withdrawalCallback[OF assms(4)])
  show ?thesis
    unfolding a b c
    using status_after_byId[OF assms(1)] status_after_byBatchNo[OF assms(1)]
      status_after_callback0[OF assms(1)]
    by (auto simp: inflight_no_update applyUpdate_def)
qed

text \<open>
  C6 as stated fails on the earlier webhook revision: a \<open>CANCELLED\<close> notification for a
  \<open>processing\<close> withdrawal leaves it \<open>failed\<close>, where the stated mapping gives
  \<open>cancelled\<close>.
\<close>

theorem earlier_callback_cancelled_is_failed:
  "map w_status
     (withdrawals (store (withdrawalCallback0 ledgerProcessing True
                            (Inr (CallbackData ''W1'' None (Some ''CANCELLED'') None)) 9)))
   = [WFailed]
   \<and> map w_status (withdrawals ledgerProcessing) = [WProcessing]
   \<and> specLocalStatus ''CANCELLED'' WProcessing = WCancelled"
  by (simp add: withdrawalCallback0_def ledgerProcessing_def emptyDb_def mkWithdrawal_def Let_def
      orElse_def truthy_def applyUpdate_def updateByBatchNo_def specLocalStatus_def)

section \<open>Cancellation and the frozen snapshot\<close>

















lemma withdrawals_wechatNotify: "withdrawals (fst (wechatNotify d n now)) = withdrawals d"
  by (auto simp: wechatNotify_def Let_def updatePayments_def prepayPaid_def updateOrder_def
      transitionRepairPaymentSuccess_def split: option.splits)

lemma withdrawals_queryPayment: "withdrawals (store (queryPayment d no u g now)) = withdrawals d"
  by (cases g)
     (auto simp: queryPayment_def Let_def updatePayments_def prepayPaid_def updateOrder_def
      split: option.splits)



section \<open>One processing withdrawal per electrician, request after request\<close>

lemma filter_length_map_le:
  assumes "\<And>r. r \<in> set ws \<Longrightarrow> P (g r) \<Longrightarrow> P r"
  shows "length (filter P (map g ws)) \<le> length (filter P ws)"
  using assms by (induction ws) (auto simp: le_SucI)

lemma processingCount_map_le:
  assumes "withdrawals d' = map g (withdrawals d)"
    and "\<And>r. w_electrician_id (g r) = w_electrician_id r"
    and "\<And>r. w_status (g r) = WProcessing \<Longrightarrow> w_status r = WProcessing"
  shows "processingCount e d' \<le> processingCount e d"
  unfolding processingCount_def assms(1)
  by (rule filter_length_map_le) (auto simp: assms(2) dest: assms(3))

lemma processingCount_updateById:
  assumes "\<And>r. w_electrician_id (f r) = w_electrician_id r \<and> w_status (f r) \<noteq> WProcessing"
  shows "processingCount e (updateById j f d) \<le> processingCount e d"
  by (rule processingCount_map_le[where g = "\<lambda>w. if w_id w = j then f w else w"])
     (auto simp: updateById_def assms split: if_splits)

lemma processingCount_updateByBatchNo:
  assumes "\<And>r. w_electrician_id (f r) = w_electrician_id r \<and> w_status (f r) \<noteq> WProcessing"
  shows "processingCount e (updateByBatchNo no f d) \<le> processingCount e d"
  by (rule processingCount_map_le[where g = "\<lambda>w. if w_out_batch_no w = no then f w else w"])
     (auto simp: updateByBatchNo_def assms split: if_splits)

lemma updateDataOf_terminal:
  "updateDataOf c q now = Some f \<Longrightarrow>
     w_electrician_id (f r) = w_electrician_id r \<and> w_status (f r) \<noteq> WProcessing"
  by (auto simp: updateDataOf_def split: if_splits)

lemma processingCount_applyById:
  "processingCount e (applyUpdate (map_option (updateById j) (updateDataOf c q now)) d)
     \<le> processingCount e d"
  by (cases "updateDataOf c q now")
     (simp_all add: applyUpdate_def processingCount_updateById updateDataOf_terminal)

lemma processingCount_applyByBatchNo:
  "processingCount e (applyUpdate (map_option (updateByBatchNo no) (updateDataOf c q now)) d)
     \<le> processingCount e d"
  by (cases "updateDataOf c q now")
     (simp_all add: applyUpdate_def processingCount_updateByBatchNo updateDataOf_terminal)

lemma processingCount_cong:
  "withdrawals d' = withdrawals d \<Longrightarrow> processingCount e d' = processingCount e d"
  by (simp add: processingCount_def)

lemma find_None_filter: "find P xs = None \<Longrightarrow> filter P xs = []"
  by (induction xs) (auto split: if_splits)

lemma withdrawTx_no_processing:
  "withdrawTx d e a now r = Inr (d1, row) \<Longrightarrow> processingCount e d = 0"
  by (auto simp: withdrawTx_def processingCount_def find_None_filter split: if_splits)

lemma processing_withdraw:
  assumes "processingCount e' d \<le> 1"
  shows "processingCount e' (store (withdraw d e a now r g)) \<le> 1"
proof (cases "withdrawTx d e a now r")
  case (Inl err)
  then show ?thesis using assms by (simp add: withdraw_def)
next
  case (Inr p)
  obtain d1 row where p: "p = (d1, row)" by (cases p)
  note tx = Inr[unfolded p]
  have d1: "d1 = d \<lparr> withdrawals := withdrawals d @ [row] \<rparr>"
    and rid: "w_id row = nextId (withdrawals d)" and re: "w_electrician_id row = e"
    using withdrawTx_Inr[OF tx] by auto
  have z: "processingCount e d = 0"
    by (rule withdrawTx_no_processing[OF tx])
  have shape: "\<exists>f. withdrawals (store (withdraw d e a now r g)) = withdrawals d @ [f row]
                  \<and> w_electrician_id (f row) = e"
    using re
    by (cases g)
       (auto simp: withdraw_def tx withdrawTransfer_def d1 rid updateById_new_row[OF rid])
  then obtain f where f: "withdrawals (store (withdraw d e a now r g)) = withdrawals d @ [f row]"
    "w_electrician_id (f row) = e" by blast
  show ?thesis
  proof (cases "e' = e")
    case True
    then show ?thesis using z f by (simp add: processingCount_def)
  next
    case False
    then show ?thesis using assms f by (simp add: processingCount_def)
  qed
qed

lemma processing_exec:
  "processingCount e d \<le> 1 \<Longrightarrow> processingCount e (exec op d) \<le> 1"
proof (cases op)
  case (Withdraw e' a now r g)
  assume "processingCount e d \<le> 1"
  then have "processingCount e (store (withdraw d e' a now r g)) \<le> 1"
    by (rule processing_withdraw)
  then show ?thesis by (simp add: Withdraw)
next
  case (QueryWithdrawalStatus u i no g now)
  assume a: "processingCount e d \<le> 1"
  have "processingCount e (store (queryWithdrawalStatus d u i no g now)) \<le> processingCount e d"
    by (cases g)
       (auto simp: queryWithdrawalStatus_def Let_def processingCount_applyById split: option.splits)
  then show ?thesis using a by (simp add: QueryWithdrawalStatus)
next
  case (GetWithdrawalStatus e' no g now)
  assume a: "processingCount e d \<le> 1"
  have "processingCount e (store (getWithdrawalStatus d e' no g now)) \<le> processingCount e d"
    by (cases g)
       (auto simp: getWithdrawalStatus_def Let_def processingCount_applyById split: option.splits)
  then show ?thesis using a by (simp add: GetWithdrawalStatus)
next
  case (WithdrawalCallback n g now)
  assume a: "processingCount e d \<le> 1"
  have "processingCount e (store (withdrawalCallback d n g now)) \<le> processingCount e d"
    by (cases g)
       (auto simp: withdrawalCallback_def Let_def processingCount_applyByBatchNo)
  then show ?thesis using a by (simp add: WithdrawalCallback)
next
  case (WithdrawalCallback0 v b now)
  assume a: "processingCount e d \<le> 1"
  have "processingCount e (store (withdrawalCallback0 d v b now)) \<le> processingCount e d"
    by (cases b)
       (auto simp: withdrawalCallback0_def Let_def applyUpdate_def processingCount_updateByBatchNo)
  then show ?thesis using a by (simp add: WithdrawalCallback0)
next
  case (CancelWithdrawal e' no g now)
  assume a: "processingCount e d \<le> 1"
  have "processingCount e (store (cancelWithdrawal d e' no g now)) \<le> processingCount e d"
    by (cases g)
       (auto simp: cancelWithdrawal_def processingCount_updateById split: option.splits)
  then show ?thesis using a by (simp add: CancelWithdrawal)
next
  case (WechatNotify n now)
  assume a: "processingCount e d \<le> 1"
  then show ?thesis
    by (simp add: WechatNotify processingCount_cong[OF withdrawals_wechatNotify])
next
  case (QueryPayment no u g now)
  assume a: "processingCount e d \<le> 1"
  then show ?thesis
    by (simp add: QueryPayment processingCount_cong[OF withdrawals_queryPayment])
qed

text \<open>
  When requests do not interleave, at most one \<open>processing\<close> withdrawal per electrician
  is an invariant of every operation, hence of every sequence of them.
\<close>

lemma single_processing_sequential:
  "processingCount e d \<le> 1 \<Longrightarrow> processingCount e (foldl (\<lambda>st op. exec op st) d ops) \<le> 1"
proof (induction ops arbitrary: d)
  case Nil
  then show ?case by simp
next
  case (Cons op ops)
  have "processingCount e (exec op d) \<le> 1"
    by (rule processing_exec[OF Cons.prems])
  then show ?case
    using Cons.IH by simp
qed

section \<open>Concrete runs\<close>

lemma ledger50_payments:
  "findPayment ''PAY1'' ledger50
     = Some \<lparr> p_id = 1, p_order_id = 1, p_user_id = 7, p_amount = 50,
               p_payment_method = ''wechat'', p_out_trade_no = ''PAY1'', p_type = Prepay,
               p_status = PSuccess, p_transaction_id = Some ''tx1'', p_paid_at = Some 1,
               p_failed_reason = None \<rparr>"
  by (simp add: findPayment_def ledger50_def emptyDb_def)

text \<open>
  C3 on \<open>ledger50\<close>, whose payment \<open>PAY1\<close> is already \<open>success\<close>: the notification is
  answered with the success response and the ledger is untouched.
\<close>

theorem wechatNotify_duplicate_noop_witness:
  "wechatNotify ledger50 (NotifyResult True [] ''PAY1'' (Some ''tx1'') ''SUCCESS'' None) 9
     = (ledger50, SuccessResponse)"
  using wechatNotify_duplicate_noop
          [of "NotifyResult True [] ''PAY1'' (Some ''tx1'') ''SUCCESS'' None" ledger50 _ 9]
        ledger50_payments
  by simp

lemma ledgerRepair_rows:
  "findPayment ''PAY2'' ledgerRepair
     = Some \<lparr> p_id = 2, p_order_id = 1, p_user_id = 7, p_amount = 100,
               p_payment_method = ''wechat'', p_out_trade_no = ''PAY2'', p_type = Repair,
               p_status = PPending, p_transaction_id = None, p_paid_at = None,
               p_failed_reason = None \<rparr>"
  "findOrder 1 ledgerRepair
     = Some \<lparr> o_id = 1, o_user_id = 7, o_electrician_id = Some 1, o_order_no = ''O1'',
               o_status = PendingRepairPayment, o_prepaid_at = Some 1,
               o_repair_paid_at = None \<rparr>"
  by (simp_all add: findPayment_def findOrder_def ledgerRepair_def emptyDb_def)

text \<open>
  C10 on \<open>ledgerRepair\<close>: a verified notification that reports \<open>CLOSED\<close> for the pending
  payment \<open>PAY2\<close> marks it \<open>success\<close>, stamps \<open>paid_at\<close> and moves the order to
  \<open>in_progress\<close>.
\<close>

theorem wechatNotify_ignores_trade_state_witness:
  "map_option p_status
     (findPayment ''PAY2''
        (fst (wechatNotify ledgerRepair (NotifyResult True [] ''PAY2'' None ''CLOSED'' None) 9)))
     = Some PSuccess
   \<and> map_option p_paid_at
     (findPayment ''PAY2''
        (fst (wechatNotify ledgerRepair (NotifyResult True [] ''PAY2'' None ''CLOSED'' None) 9)))
     = Some (Some 9)
   \<and> map_option o_status
     (findOrder 1
        (fst (wechatNotify ledgerRepair (NotifyResult True [] ''PAY2'' None ''CLOSED'' None) 9)))
     = Some InProgress"
  using wechatNotify_ignores_trade_state
          [OF ledgerRepair_rows(1), of _ "[]" None "''CLOSED''" None 9, THEN conjunct2]
        ledgerRepair_rows(2)
  by simp

lemma ledger50_withdrawTx:
  "withdrawTx ledger50 1 (Some 50) 3 ''c0ffee00''
     = Inr (ledger50 \<lparr> withdrawals := withdrawals ledger50 @ [row50] \<rparr>, row50)"
  by (simp add: withdrawTx_def Let_def ledger50_balance_Suc ledger50_fields truthy_def
      withdrawAmountOf_def nextId_def row50_def)

text \<open>
  C5 fails on the code when the gateway answers the transfer request with HTTP 429 and
  the code \<open>FREQUENCY_LIMIT_EXCEED\<close>: \<open>createTransferBill\<close> throws a plain error, so the
  handler's rate-limit branch is not taken. The committed row of 50 ends \<open>failed\<close> with
  the adapter's message as its reason and nothing is locked, as the claim says, but the
  reply is the generic error of status 500, not the 429 body.
\<close>

theorem withdraw_gateway_429_answers_500:
  "reply (withdraw ledger50 1 (Some 50) 3 ''c0ffee00''
            (createTransferBill False (generateOutBatchNo 1 3 ''c0ffee00'') 4
               (Inl (HttpError (Some 429) (Some ''FREQUENCY_LIMIT_EXCEED'')
                       (Some ''too many requests'') ''Request failed with status code 429''))))
     = Next (AppError (WithdrawFailed (transferFailedText @ ''too many requests'')) 500)
   \<and> map_option w_status
       (findByPk 1
          (store (withdraw ledger50 1 (Some 50) 3 ''c0ffee00''
                    (createTransferBill False (generateOutBatchNo 1 3 ''c0ffee00'') 4
                       (Inl (HttpError (Some 429) (Some ''FREQUENCY_LIMIT_EXCEED'')
                               (Some ''too many requests'')
                               ''Request failed with status code 429''))))))
     = Some WFailed
   \<and> lockedAmount
       (calculateBalance
          (store (withdraw ledger50 1 (Some 50) 3 ''c0ffee00''
                    (createTransferBill False (generateOutBatchNo 1 3 ''c0ffee00'') 4
                       (Inl (HttpError (Some 429) (Some ''FREQUENCY_LIMIT_EXCEED'')
                               (Some ''too many requests'')
                               ''Request failed with status code 429'')))))
          1)
     = 0"
proof -
  have g: "createTransferBill False (generateOutBatchNo 1 3 ''c0ffee00'') 4
             (Inl (HttpError (Some 429) (Some ''FREQUENCY_LIMIT_EXCEED'')
                     (Some ''too many requests'') ''Request failed with status code 429''))
           = Inl (ApiError None None (transferFailedText @ ''too many requests''))"
    by (simp add: createTransferBill_def rethrown_def truthy_def)
  show ?thesis
    unfolding g
    using withdraw_gateway_failure
            [OF ledger50_withdrawTx,
             of "ApiError None None (transferFailedText @ ''too many requests'')" 1]
    by (simp add: row50_def ledger50_balance_Suc)
qed

lemma ledgerProcessing_owned:
  "findOwned ''W1'' 1 ledgerProcessing = Some (mkWithdrawal 1 1 10 WProcessing ''W1'')"
  by (simp add: findOwned_def ledgerProcessing_def emptyDb_def mkWithdrawal_def)

text \<open>
  C6 on \<open>ledgerProcessing\<close>: \<open>CANCELLED\<close> becomes \<open>cancelled\<close> through the status query
  and \<open>failed\<close> through the earlier webhook; \<open>WAIT_USER_CONFIRM\<close> changes nothing.
\<close>

theorem status_mapping_witness:
  "map_option w_status
     (findOwned ''W1'' 1
        (store (queryWithdrawalStatus ledgerProcessing (Some 1) None (Some ''W1'')
                  (Inr (QueryResult ''CANCELLED'' None)) 9)))
     = Some WCancelled
   \<and> map_option w_status
     (findOwned ''W1'' 1
        (store (withdrawalCallback0 ledgerProcessing True
                  (Inr (CallbackData ''W1'' None (Some ''CANCELLED'') None)) 9)))
     = Some WFailed
   \<and> store (getWithdrawalStatus ledgerProcessing 1 ''W1''
               (Inr (QueryResult ''WAIT_USER_CONFIRM'' None)) 9)
     = ledgerProcessing"
proof -
  have nt: "\<not> terminal (w_status (mkWithdrawal 1 1 10 WProcessing ''W1''))"
    by (simp add: terminal_def mkWithdrawal_def)
  have e: "(1::nat) \<noteq> 0" and n: "''W1'' \<noteq> []"
    by simp_all
  show ?thesis
    using status_mapping[OF ledgerProcessing_owned nt e n,
            of "QueryResult ''CANCELLED'' None" 9 None "Some ''CANCELLED''" None]
          status_mapping[OF ledgerProcessing_owned nt e n,
            of "QueryResult ''WAIT_USER_CONFIRM'' None" 9 None None None]
    by (simp add: specLocalStatus_def earlierLocalStatus_def orElse_def truthy_def
        mkWithdrawal_def)
qed



end
